theory Spec2Isabelle
  imports Complex_Main "HOL-Library.AList"
begin

section \<open>JavaScript values used by the map component\<close>

text \<open>
  The component under study is \<^verbatim>\<open>src/components/MapComponent.jsx\<close>. A JavaScript number
  is a double; every finite double denotes a rational, and the model computes with
  rationals exactly (the rounding of an arithmetic result back to a double is not
  modelled). \<open>NaN\<close> is kept, since \<open>0 / 0\<close> and the sum with \<open>undefined\<close> produce it. A
  number literal that the component only passes on to the library is written by its
  decimal value.
\<close>

datatype jsnum = Num rat | NaN

datatype js_error =
    ReferenceError string
  | TypeError string
  | NetworkError string
  | MapError string

primrec message :: "js_error \<Rightarrow> string" where
  "message (ReferenceError s) = s"
| "message (TypeError s) = s"
| "message (NetworkError s) = s"
| "message (MapError s) = s"

text \<open>
  Strings are character lists, a \<open>char\<close> standing for one code unit below 256, so that
  \<open>length\<close> is the \<open>length\<close> of the JavaScript string; \<open>undefined\<close> or \<open>null\<close> in a
  string-valued slot is \<open>None\<close>.
\<close>

definition truthy :: "string option \<Rightarrow> bool" where
  "truthy v = (case v of None \<Rightarrow> False | Some s \<Rightarrow> s \<noteq> [])"

text \<open>\<open>a || b\<close> on a string-valued slot with a string default.\<close>

definition or_else :: "string option \<Rightarrow> string \<Rightarrow> string" where
  "or_else v d = (case v of None \<Rightarrow> d | Some s \<Rightarrow> if s = [] then d else s)"

text \<open>
  \<open>String.prototype.trim\<close>: white space and line terminators are removed at both ends.
  Of the code points a \<open>char\<close> can hold these are tab, line feed, vertical tab, form
  feed, carriage return, space and the no-break space.
\<close>

definition is_space :: "char \<Rightarrow> bool" where
  "is_space c = (of_char c \<in> {9, 10, 11, 12, 13, 32, 160 :: nat})"

definition trim :: "string \<Rightarrow> string" where
  "trim s = rev (dropWhile is_space (rev (dropWhile is_space s)))"

subsection \<open>Number.prototype.toFixed\<close>

definition digit_char :: "nat \<Rightarrow> char" where
  "digit_char d = ''0123456789'' ! (d mod 10)"

fun digits :: "nat \<Rightarrow> string" where
  "digits n = (if n < 10 then [digit_char n] else digits (n div 10) @ [digit_char n])"

declare digits.simps [simp del]

text \<open>
  \<open>x.toFixed(f)\<close> for a finite number \<open>x\<close>, following the language definition: the sign
  is split off, \<open>n\<close> is the integer for which \<open>n / 10^f - x\<close> is closest to zero (the
  larger one on a tie), its decimal digits are padded with zeros to \<open>f + 1\<close> places and
  the point is put before the last \<open>f\<close> of them. From \<open>10^21\<close> on JavaScript prints
  exponent notation instead; coordinates on a map are far below that bound, and the
  model keeps the positional digits there. The numbers the component formats are pointer
  and camera coordinates, which the map library only hands out as finite numbers.
\<close>

definition fixed_digits :: "nat \<Rightarrow> rat \<Rightarrow> string" where
  "fixed_digits f a =
     (let n = nat \<lfloor>a * 10 ^ f + 1 / 2\<rfloor>;
          m = digits n;
          z = (if length m \<le> f then replicate (f + 1 - length m) CHR ''0'' @ m else m);
          k = length z
      in if f = 0 then m else take (k - f) z @ ''.'' @ drop (k - f) z)"

definition toFixed :: "nat \<Rightarrow> rat \<Rightarrow> string" where
  "toFixed f x = (if x < 0 then ''-'' @ fixed_digits f (- x) else fixed_digits f x)"

subsection \<open>parseFloat\<close>

text \<open>
  \<open>parseFloat\<close> skips leading white space and reads the longest prefix that is a decimal
  literal: a sign, digits, a fraction, an exponent. Without a digit the result is \<open>NaN\<close>.
  The literal \<open>Infinity\<close> has no counterpart in \<open>jsnum\<close> and reads as \<open>NaN\<close> here.
\<close>

definition is_digit :: "char \<Rightarrow> bool" where
  "is_digit c = (48 \<le> (of_char c :: nat) \<and> (of_char c :: nat) \<le> 57)"

definition digits_value :: "string \<Rightarrow> nat" where
  "digits_value ds = foldl (\<lambda>acc c. 10 * acc + (of_char c - 48)) 0 ds"

definition split_sign :: "string \<Rightarrow> bool \<times> string" where
  "split_sign s =
     (case s of
        [] \<Rightarrow> (False, [])
      | c # r \<Rightarrow> if c = CHR ''-'' then (True, r) else if c = CHR ''+'' then (False, r) else (False, s))"

definition exponent_of :: "string \<Rightarrow> int" where
  "exponent_of s =
     (case s of
        [] \<Rightarrow> 0
      | c # r \<Rightarrow>
          if c = CHR ''e'' \<or> c = CHR ''E''
          then (let (neg, t) = split_sign r; ds = takeWhile is_digit t
                in if ds = [] then 0
                   else if neg then - int (digits_value ds) else int (digits_value ds))
          else 0)"

definition scale10 :: "rat \<Rightarrow> int \<Rightarrow> rat" where
  "scale10 x e = (if e < 0 then x / 10 ^ nat (- e) else x * 10 ^ nat e)"

definition parseFloat :: "string \<Rightarrow> jsnum" where
  "parseFloat s =
     (let (neg, u) = split_sign (dropWhile is_space s);
          ip = takeWhile is_digit u;
          r1 = dropWhile is_digit u;
          has_point = (case r1 of [] \<Rightarrow> False | c # _ \<Rightarrow> c = CHR ''.'');
          fp = (if has_point then takeWhile is_digit (tl r1) else []);
          r2 = (if has_point then dropWhile is_digit (tl r1) else r1);
          magnitude = of_nat (digits_value ip) + of_nat (digits_value fp) / 10 ^ length fp;
          v = scale10 magnitude (exponent_of r2)
      in if ip = [] \<and> fp = [] then NaN else Num (if neg then - v else v))"

section \<open>Configuration constants\<close>

definition MAP_STYLE_URL :: string where
  "MAP_STYLE_URL = ''https://tiles.stadiamaps.com/styles/alidade_satellite.json''"

definition API_BASE_URL :: string where
  "API_BASE_URL = ''https://ins-back-end.onrender.com/api/map''"

definition NOMINATIM_API_URL :: string where
  "NOMINATIM_API_URL = ''https://nominatim.openstreetmap.org/search''"

definition REVERSE_NOMINATIM_API_URL :: string where
  "REVERSE_NOMINATIM_API_URL = ''https://nominatim.openstreetmap.org/reverse''"

definition ROUTE_POINT_SOURCE_ID :: string where
  "ROUTE_POINT_SOURCE_ID = ''route-point-source''"

definition ROUTE_POINT_LAYER_ID :: string where
  "ROUTE_POINT_LAYER_ID = ''route-point-layer''"

definition BOX_SOURCE_ID :: string where
  "BOX_SOURCE_ID = ''box-polygon-source''"

definition BOX_LAYER_ID :: string where
  "BOX_LAYER_ID = ''box-polygon-layer''"

definition CLICKED_POINTS_SOURCE_ID :: string where
  "CLICKED_POINTS_SOURCE_ID = ''clicked-points-source''"

definition COLLECTED_COORDS_SOURCE_ID :: string where
  "COLLECTED_COORDS_SOURCE_ID = ''collected-coords-source''"

definition COLLECTED_COORDS_LAYER_ID :: string where
  "COLLECTED_COORDS_LAYER_ID = ''collected-coords-layer''"

definition MAX_LOGGED_CLICKS :: nat where
  "MAX_LOGGED_CLICKS = 1"

definition MAX_COLLECTED_POINTS :: nat where
  "MAX_COLLECTED_POINTS = 155"

definition CATEGORY_OPTIONS :: "string list" where
  "CATEGORY_OPTIONS =
     [''All'', ''Building'', ''Cabin'', ''Security Pillar'', ''Gate'', ''Other'', ''main'']"

definition BUILDING_LAYER_ID :: string where
  "BUILDING_LAYER_ID = ''buildings-3d''"

definition PHOTO_MARKER_LAYER_ID :: string where
  "PHOTO_MARKER_LAYER_ID = ''building-marker''"

definition COLOR_GOLD :: string where
  "COLOR_GOLD = ''#d4af37''"

definition COLOR_PURPLE :: string where
  "COLOR_PURPLE = ''#9400d3''"

definition COLOR_ROUTE_GREEN :: string where
  "COLOR_ROUTE_GREEN = ''#047857''"

text \<open>
  The string constants the module declares, by identifier. An identifier that neither the
  module nor an enclosing function declares does not resolve, and evaluating it raises a
  \<open>ReferenceError\<close>. The remaining top-level names of the module (the imports, the numeric
  limits, \<open>DEFAULT_CENTER\<close>, \<open>CATEGORY_OPTIONS\<close>, \<open>DEBOUNCE_DELAY\<close> and the functions) are
  bound to other kinds of values and are referred to directly where the model needs them.
\<close>

definition module_scope :: "(string \<times> string) list" where
  "module_scope =
     [(''MAP_STYLE_URL'', MAP_STYLE_URL),
      (''API_BASE_URL'', API_BASE_URL),
      (''NOMINATIM_API_URL'', NOMINATIM_API_URL),
      (''REVERSE_NOMINATIM_API_URL'', REVERSE_NOMINATIM_API_URL),
      (''ROUTE_POINT_SOURCE_ID'', ROUTE_POINT_SOURCE_ID),
      (''ROUTE_POINT_LAYER_ID'', ROUTE_POINT_LAYER_ID),
      (''BOX_SOURCE_ID'', BOX_SOURCE_ID),
      (''BOX_LAYER_ID'', BOX_LAYER_ID),
      (''CLICKED_POINTS_SOURCE_ID'', CLICKED_POINTS_SOURCE_ID),
      (''COLLECTED_COORDS_SOURCE_ID'', COLLECTED_COORDS_SOURCE_ID),
      (''COLLECTED_COORDS_LAYER_ID'', COLLECTED_COORDS_LAYER_ID),
      (''BUILDING_LAYER_ID'', BUILDING_LAYER_ID),
      (''PHOTO_MARKER_LAYER_ID'', PHOTO_MARKER_LAYER_ID),
      (''COLOR_GOLD'', COLOR_GOLD),
      (''COLOR_PURPLE'', COLOR_PURPLE),
      (''COLOR_ROUTE_GREEN'', COLOR_ROUTE_GREEN)]"

definition resolve :: "string \<Rightarrow> js_error + string" where
  "resolve ident =
     (case map_of module_scope ident of
        None \<Rightarrow> Inl (ReferenceError ident)
      | Some v \<Rightarrow> Inr v)"

section \<open>GeoJSON features\<close>

text \<open>
  The building dataset is a FeatureCollection whose features have polygon or point
  geometry and a bag of properties. A position is the array of its numbers.
\<close>

type_synonym position = "jsnum list"

datatype geometry = Point position | Polygon "position list list"

text \<open>The value of \<open>geometry.coordinates\<close>, as it is handed on unchanged.\<close>

datatype coords = Position position | Rings "position list list"

fun coordinates :: "geometry \<Rightarrow> coords" where
  "coordinates (Point p) = Position p"
| "coordinates (Polygon rs) = Rings rs"

record viewpoint =
  vp_coordinates :: "position option"

record properties =
  prop_name :: "string option"
  prop_id :: "string option"
  prop_category :: "string option"
  prop_imageURL :: "string option"
  prop_height :: "rat option"
  prop_viewpoint :: "viewpoint option"

record feature =
  geometry :: geometry
  properties :: properties

text \<open>
  \<open>p[i]\<close> as an operand: an entry the array does not have is \<open>undefined\<close>, which every
  sum turns into \<open>NaN\<close>.
\<close>

definition entry :: "position \<Rightarrow> nat \<Rightarrow> jsnum" where
  "entry p i = (if i < length p then p ! i else NaN)"

definition js_add :: "jsnum \<Rightarrow> jsnum \<Rightarrow> jsnum" where
  "js_add a b = (case (a, b) of (Num x, Num y) \<Rightarrow> Num (x + y) | _ \<Rightarrow> NaN)"

text \<open>
  \<open>sum / coords.length\<close>: over an empty ring the sum is \<open>0\<close> and \<open>0 / 0\<close> is \<open>NaN\<close>.
\<close>

definition js_div_length :: "jsnum \<Rightarrow> nat \<Rightarrow> jsnum" where
  "js_div_length a n =
     (case a of NaN \<Rightarrow> NaN | Num x \<Rightarrow> if n = 0 then NaN else Num (x / of_nat n))"

definition centroid :: "position list \<Rightarrow> position" where
  "centroid ring =
     (let centerLng = js_div_length (foldl (\<lambda>sum p. js_add sum (entry p 0)) (Num 0) ring) (length ring);
          centerLat = js_div_length (foldl (\<lambda>sum p. js_add sum (entry p 1)) (Num 0) ring) (length ring)
      in [centerLng, centerLat])"

text \<open>The callback of \<open>buildings.features.map\<close> in the load handler.\<close>

definition pointCoords :: "feature \<Rightarrow> position" where
  "pointCoords f =
     (case (case prop_viewpoint (properties f) of None \<Rightarrow> None | Some vp \<Rightarrow> vp_coordinates vp) of
        Some c \<Rightarrow> c
      | None \<Rightarrow>
          (case geometry f of
             Polygon rs \<Rightarrow> (case rs of [] \<Rightarrow> [Num 0, Num 0] | ring # _ \<Rightarrow> centroid ring)
           | Point p \<Rightarrow> [Num 0, Num 0]))"

definition viewpointMarker :: "feature \<Rightarrow> feature" where
  "viewpointMarker f = \<lparr>geometry = Point (pointCoords f), properties = properties f\<rparr>"

definition viewpointMarkers :: "feature list \<Rightarrow> feature list" where
  "viewpointMarkers features = map viewpointMarker features"

section \<open>Service payloads\<close>

text \<open>
  The decoded body of a response: a list of places for a forward search, an object with
  an optional address for a reverse lookup, a line for a route.
\<close>

record place =
  display_name :: string
  lon :: string
  lat_text :: string
  place_type :: string

record address =
  postcode :: "string option"

record reverse_body =
  body_address :: "address option"
  body_display_name :: "string option"

datatype payload =
    PlaceList "place list"
  | ReverseBody reverse_body
  | RouteBody "position list"

record response =
  data :: "payload option"

section \<open>The map widget\<close>

text \<open>
  The rendering library (maplibre-gl) is an external collaborator. The model keeps what
  the component can observe of a map instance: the registry of named datasets (sources)
  and layers, whether the style has loaded, the camera movements requested, the icons
  added, and the handlers registered on layers. A style value (a paint or layout
  property, a filter expression) is a string, a number or an array of style values.
\<close>

datatype style = S string | N rat | L "style list"

record layer =
  layer_id :: string
  layer_type :: string
  layer_source :: string
  layer_layout :: "(string \<times> style) list"
  layer_paint :: "(string \<times> style) list"
  layer_filter :: "style option"

record flight =
  fl_center :: coords
  fl_zoom :: "rat option"
  fl_pitch :: "rat option"
  fl_bearing :: "rat option"

text \<open>
  A geographic point as the library hands it out (\<open>e.lngLat\<close>, \<open>getCenter()\<close>): two
  finite numbers.
\<close>

record lnglat =
  lng :: rat
  lat :: rat

text \<open>
  The values the handlers created by the initialization effect close over: the render's
  \<open>buildings\<close>, \<open>routePoints\<close> and \<open>route\<close>. The effect's dependency list is
  \<open>[buildings, dispatch, handleReverseGeocode]\<close>, so the handlers keep these values until
  \<open>buildings\<close> changes.
\<close>

record closure =
  cap_buildings :: "feature list"
  cap_routePoints :: "lnglat list"
  cap_route :: "payload option"

record map_state =
  sources :: "(string \<times> feature list) list"
  layers :: "layer list"
  style_loaded :: bool
  center :: lnglat
  flights :: "flight list"
  images :: "string list"
  image_loads :: "string list"
  layer_click_handlers :: "string list"
  handlers :: closure

definition getLayer :: "string \<Rightarrow> map_state \<Rightarrow> layer option" where
  "getLayer i m = find (\<lambda>l. layer_id l = i) (layers m)"

definition removeLayer :: "string \<Rightarrow> map_state \<Rightarrow> map_state" where
  "removeLayer i m = m\<lparr>layers := filter (\<lambda>l. layer_id l \<noteq> i) (layers m)\<rparr>"

definition getSource :: "string \<Rightarrow> map_state \<Rightarrow> feature list option" where
  "getSource i m = map_of (sources m) i"

definition removeSource :: "string \<Rightarrow> map_state \<Rightarrow> map_state" where
  "removeSource i m = m\<lparr>sources := filter (\<lambda>e. fst e \<noteq> i) (sources m)\<rparr>"

text \<open>The library refuses a second source under a name that is taken.\<close>

definition addSource :: "string \<Rightarrow> feature list \<Rightarrow> map_state \<Rightarrow> js_error + map_state" where
  "addSource i d m =
     (if getSource i m = None then Inr (m\<lparr>sources := sources m @ [(i, d)]\<rparr>)
      else Inl (MapError i))"

text \<open>A layer whose id is taken is reported on the error channel and not added.\<close>

definition addLayer :: "layer \<Rightarrow> map_state \<Rightarrow> map_state" where
  "addLayer l m = (if getLayer (layer_id l) m = None then m\<lparr>layers := layers m @ [l]\<rparr> else m)"

definition setData :: "string \<Rightarrow> feature list \<Rightarrow> map_state \<Rightarrow> map_state" where
  "setData i d m = m\<lparr>sources := map (\<lambda>e. if fst e = i then (i, d) else e) (sources m)\<rparr>"

definition setPaintProperty :: "string \<Rightarrow> string \<Rightarrow> style \<Rightarrow> map_state \<Rightarrow> map_state" where
  "setPaintProperty i k v m =
     m\<lparr>layers := map (\<lambda>l. if layer_id l = i
                             then l\<lparr>layer_paint := AList.update k v (layer_paint l)\<rparr> else l) (layers m)\<rparr>"

definition setFilter :: "string \<Rightarrow> style option \<Rightarrow> map_state \<Rightarrow> map_state" where
  "setFilter i f m =
     m\<lparr>layers := map (\<lambda>l. if layer_id l = i then l\<lparr>layer_filter := f\<rparr> else l) (layers m)\<rparr>"

text \<open>
  \<open>flyTo\<close> converts its target to a geographic point first: the target must be an array
  of two or three entries whose first two are numbers, the second one a latitude between
  -90 and 90. On any other target the library throws; an array of rings is no such
  target.
\<close>

definition valid_center :: "coords \<Rightarrow> bool" where
  "valid_center c =
     (case c of
        Rings rs \<Rightarrow> False
      | Position p \<Rightarrow>
          (length p = 2 \<or> length p = 3)
          \<and> (case entry p 0 of
                NaN \<Rightarrow> False
              | Num x \<Rightarrow> (case entry p 1 of NaN \<Rightarrow> False | Num y \<Rightarrow> - 90 \<le> y \<and> y \<le> 90)))"

definition flyTo :: "flight \<Rightarrow> map_state \<Rightarrow> js_error + map_state" where
  "flyTo fl m =
     (if valid_center (fl_center fl) then Inr (m\<lparr>flights := flights m @ [fl]\<rparr>)
      else Inl (MapError ''Invalid LngLat''))"

section \<open>The load handler\<close>

definition cleanupLayersAndSources :: "string \<Rightarrow> map_state \<Rightarrow> map_state" where
  "cleanupLayersAndSources i m =
     (let m1 = (if getLayer i m = None then m else removeLayer i m)
      in if getSource i m1 = None then m1 else removeSource i m1)"

text \<open>
  The handler is a straight line of statements. A statement that throws ends the handler
  there: what the earlier statements did to the map stays, the later ones never run.
\<close>

type_synonym stmt = "map_state \<Rightarrow> js_error + map_state"

fun run :: "stmt list \<Rightarrow> map_state \<Rightarrow> map_state \<times> js_error option" where
  "run [] m = (m, None)"
| "run (c # cs) m = (case c m of Inl e \<Rightarrow> (m, Some e) | Inr m' \<Rightarrow> run cs m')"

definition ok :: "(map_state \<Rightarrow> map_state) \<Rightarrow> stmt" where
  "ok f = (\<lambda>m. Inr (f m))"

definition building_layer :: layer where
  "building_layer =
     \<lparr>layer_id = BUILDING_LAYER_ID, layer_type = ''fill-extrusion'', layer_source = ''buildings'',
      layer_layout = [],
      layer_paint = [(''fill-extrusion-color'', S COLOR_GOLD),
                     (''fill-extrusion-height'', L [S ''get'', S ''height'']),
                     (''fill-extrusion-base'', N 0),
                     (''fill-extrusion-opacity'', N 1)],
      layer_filter = None\<rparr>"

definition route_point_layer :: layer where
  "route_point_layer =
     \<lparr>layer_id = ROUTE_POINT_LAYER_ID, layer_type = ''circle'', layer_source = ROUTE_POINT_SOURCE_ID,
      layer_layout = [],
      layer_paint = [(''circle-color'',
                        L [S ''match'', L [S ''get'', S ''index''], N 0, S COLOR_ROUTE_GREEN,
                           N 1, S ''#b91c1c'', S ''#333'']),
                     (''circle-radius'', N 10),
                     (''circle-stroke-width'', N 2),
                     (''circle-stroke-color'', S ''#ffffff'')],
      layer_filter = None\<rparr>"

definition box_layer :: "string \<Rightarrow> layer" where
  "box_layer src =
     \<lparr>layer_id = BOX_LAYER_ID, layer_type = ''fill'', layer_source = src,
      layer_layout = [],
      layer_paint = [(''fill-color'', S COLOR_GOLD),
                     (''fill-opacity'', N (3 / 10)),
                     (''fill-outline-color'', S COLOR_GOLD)],
      layer_filter = None\<rparr>"

definition clicked_points_layer :: layer where
  "clicked_points_layer =
     \<lparr>layer_id = ''clicked-points-layer'', layer_type = ''circle'',
      layer_source = CLICKED_POINTS_SOURCE_ID,
      layer_layout = [],
      layer_paint = [(''circle-color'', S ''#6b7280''),
                     (''circle-radius'', N 4),
                     (''circle-stroke-width'', N 1),
                     (''circle-stroke-color'', S ''#ffffff'')],
      layer_filter = None\<rparr>"

definition photo_marker_layer :: layer where
  "photo_marker_layer =
     \<lparr>layer_id = PHOTO_MARKER_LAYER_ID, layer_type = ''symbol'', layer_source = ''viewpoint-source'',
      layer_layout = [(''icon-image'', S ''camera-icon''),
                      (''icon-size'', N (12 / 100)),
                      (''visibility'',
                         L [S ''case'', L [S ''has'', S ''imageURL''], S ''visible'', S ''none''])],
      layer_paint = [],
      layer_filter = Some (L [S ''has'', S ''imageURL''])\<rparr>"

definition loadImage :: "string \<Rightarrow> map_state \<Rightarrow> map_state" where
  "loadImage url m = m\<lparr>image_loads := image_loads m @ [url]\<rparr>"

text \<open>The callback of \<open>loadImage\<close>: best effort, the marker layer is added only on success.\<close>

definition on_image_loaded :: "bool \<Rightarrow> map_state \<Rightarrow> map_state" where
  "on_image_loaded failed m =
     (if failed then m
      else if ''camera-icon'' \<in> set (images m) then m
      else addLayer photo_marker_layer (m\<lparr>images := images m @ [''camera-icon'']\<rparr>))"

definition on_layer_click :: "string \<Rightarrow> map_state \<Rightarrow> map_state" where
  "on_layer_click i m = m\<lparr>layer_click_handlers := layer_click_handlers m @ [i]\<rparr>"

text \<open>
  The layer of the selection box names its source by the identifier
  \<open>BOX_SOURCE_SOURCE_ID\<close>; the object literal is evaluated before \<open>addLayer\<close> is called.
\<close>

definition add_box_layer :: stmt where
  "add_box_layer m =
     (case resolve ''BOX_SOURCE_SOURCE_ID'' of
        Inl e \<Rightarrow> Inl e
      | Inr src \<Rightarrow> Inr (addLayer (box_layer src) m))"

definition on_load :: "map_state \<Rightarrow> map_state \<times> js_error option" where
  "on_load m0 =
     (let buildings = cap_buildings (handlers m0) in
      run
       [ok (cleanupLayersAndSources BUILDING_LAYER_ID),
        ok (cleanupLayersAndSources ''buildings''),
        ok (cleanupLayersAndSources ''viewpoint-markers''),
        ok (cleanupLayersAndSources ''viewpoint-source''),
        ok (cleanupLayersAndSources ''route-line''),
        ok (cleanupLayersAndSources ''route-source''),
        ok (cleanupLayersAndSources ROUTE_POINT_LAYER_ID),
        ok (cleanupLayersAndSources ROUTE_POINT_SOURCE_ID),
        ok (cleanupLayersAndSources BOX_LAYER_ID),
        ok (cleanupLayersAndSources BOX_SOURCE_ID),
        ok (cleanupLayersAndSources ''clicked-points-layer''),
        ok (cleanupLayersAndSources CLICKED_POINTS_SOURCE_ID),
        ok (cleanupLayersAndSources COLLECTED_COORDS_LAYER_ID),
        ok (cleanupLayersAndSources COLLECTED_COORDS_SOURCE_ID),
        addSource ''buildings'' buildings,
        addSource ''viewpoint-source'' (viewpointMarkers buildings),
        addSource ROUTE_POINT_SOURCE_ID [],
        addSource BOX_SOURCE_ID [],
        addSource CLICKED_POINTS_SOURCE_ID [],
        addSource COLLECTED_COORDS_SOURCE_ID [],
        ok (addLayer building_layer),
        ok (addLayer route_point_layer),
        add_box_layer,
        ok (addLayer clicked_points_layer),
        ok (loadImage ''/camera-icon.png''),
        ok (on_layer_click BUILDING_LAYER_ID),
        ok (on_layer_click PHOTO_MARKER_LAYER_ID)]
       m0)"

text \<open>
  The state the claim about the load handler describes: the six datasets and the four
  layers it names are registered, each layer on its dataset.
\<close>

definition layer_on :: "string \<Rightarrow> string \<Rightarrow> string \<Rightarrow> map_state \<Rightarrow> bool" where
  "layer_on i ty src m =
     (case getLayer i m of
        None \<Rightarrow> False
      | Some l \<Rightarrow> layer_type l = ty \<and> layer_source l = src)"

definition setup_complete :: "feature list \<Rightarrow> map_state \<Rightarrow> bool" where
  "setup_complete buildings m =
     (getSource ''buildings'' m = Some buildings
      \<and> getSource ''viewpoint-source'' m = Some (viewpointMarkers buildings)
      \<and> getSource ROUTE_POINT_SOURCE_ID m = Some []
      \<and> getSource BOX_SOURCE_ID m = Some []
      \<and> getSource CLICKED_POINTS_SOURCE_ID m = Some []
      \<and> getSource COLLECTED_COORDS_SOURCE_ID m = Some []
      \<and> layer_on BUILDING_LAYER_ID ''fill-extrusion'' ''buildings'' m
      \<and> layer_on ROUTE_POINT_LAYER_ID ''circle'' ROUTE_POINT_SOURCE_ID m
      \<and> layer_on BOX_LAYER_ID ''fill'' BOX_SOURCE_ID m
      \<and> layer_on ''clicked-points-layer'' ''circle'' CLICKED_POINTS_SOURCE_ID m)"

section \<open>The geocoding client\<close>

text \<open>
  A request the component sends and what comes back. \<open>await axios.get(...)\<close> either
  throws (a network or service failure) or yields a response whose \<open>data\<close> is the decoded
  body. An asynchronous function is the value \<open>Return\<close> of its result, \<open>Throw\<close> of the
  error it ends with, or \<open>Await\<close> of the request it has sent and of how it goes on once
  the outcome is there.
\<close>

datatype param = PStr string | PNum rat

datatype request =
    Get string "(string \<times> param) list"
  | Post string "(string \<times> param) list"

datatype 'a async =
    Return 'a
  | Throw js_error
  | Await request "js_error + response \<Rightarrow> 'a async"

primrec bind_async :: "'a async \<Rightarrow> ('a \<Rightarrow> 'b async) \<Rightarrow> 'b async" where
  "bind_async (Return x) f = f x"
| "bind_async (Throw e) f = Throw e"
| "bind_async (Await r k) f = Await r (\<lambda>outcome. bind_async (k outcome) f)"

text \<open>\<open>try { body } catch (error) { handler }\<close> around asynchronous code.\<close>

primrec try_catch :: "'a async \<Rightarrow> (js_error \<Rightarrow> 'a async) \<Rightarrow> 'a async" where
  "try_catch (Return x) h = Return x"
| "try_catch (Throw e) h = h e"
| "try_catch (Await r k) h = Await r (\<lambda>outcome. try_catch (k outcome) h)"

text \<open>\<open>await axios.get(url, {params})\<close> and \<open>await axios.post(url, body)\<close>.\<close>

definition axios_get :: "string \<Rightarrow> (string \<times> param) list \<Rightarrow> response async" where
  "axios_get url params =
     Await (Get url params)
       (\<lambda>outcome. case outcome of Inl e \<Rightarrow> Throw e | Inr response \<Rightarrow> Return response)"

definition axios_post :: "string \<Rightarrow> (string \<times> param) list \<Rightarrow> response async" where
  "axios_post url body =
     Await (Post url body)
       (\<lambda>outcome. case outcome of Inl e \<Rightarrow> Throw e | Inr response \<Rightarrow> Return response)"

text \<open>The request an asynchronous call is waiting on, and the call resumed with its outcome.\<close>

primrec issued :: "'a async \<Rightarrow> request option" where
  "issued (Return x) = None"
| "issued (Throw e) = None"
| "issued (Await r k) = Some r"

primrec resume :: "'a async \<Rightarrow> js_error + response \<Rightarrow> 'a async" where
  "resume (Return x) outcome = Return x"
| "resume (Throw e) outcome = Throw e"
| "resume (Await r k) outcome = k outcome"

record suggestion =
  sg_name :: string
  sg_lng :: jsnum
  sg_lat :: jsnum
  sg_zoom :: nat

record geocode_info =
  pincode :: string
  latitude :: string
  longitude :: string
  fullAddress :: string

definition suggestion_of :: "place \<Rightarrow> suggestion" where
  "suggestion_of result =
     \<lparr>sg_name = display_name result,
      sg_lng = parseFloat (lon result),
      sg_lat = parseFloat (lat_text result),
      sg_zoom = (if place_type result = ''city'' \<or> place_type result = ''administrative''
                 then 12 else 14)\<rparr>"

text \<open>
  \<open>fetchCoordinates\<close>: the length guard, then the request inside a \<open>try\<close> whose \<open>catch\<close>
  answers with the empty list. A body that is not a list has no \<open>length\<close> above zero.
\<close>

definition fetchCoordinates :: "string \<Rightarrow> nat \<Rightarrow> suggestion list async" where
  "fetchCoordinates query limit =
     (if limit > 1 \<and> length query < 3 then Return []
      else try_catch
             (bind_async
                (axios_get NOMINATIM_API_URL
                   [(''q'', PStr query), (''format'', PStr ''json''),
                    (''limit'', PNum (of_nat limit)), (''addressdetails'', PNum 1)])
                (\<lambda>response.
                   case data response of
                     Some (PlaceList results) \<Rightarrow>
                       if length results > 0 then Return (map suggestion_of results)
                       else Return []
                   | _ \<Rightarrow> Return []))
             (\<lambda>error. Return []))"

text \<open>
  \<open>response.data && response.data.address\<close>: the address object of a response, with the
  display name beside it.
\<close>

definition address_of :: "response \<Rightarrow> (address \<times> string option) option" where
  "address_of response =
     (case data response of
        Some (ReverseBody body) \<Rightarrow>
          (case body_address body of
             Some a \<Rightarrow> Some (a, body_display_name body)
           | None \<Rightarrow> None)
      | _ \<Rightarrow> None)"

text \<open>
  \<open>fetchPincodeAndAddress\<close>: a body with an address object, a response without one, and
  the \<open>catch\<close> branch.
\<close>

definition fetchPincodeAndAddress :: "rat \<Rightarrow> rat \<Rightarrow> geocode_info async" where
  "fetchPincodeAndAddress lat' lng' =
     try_catch
       (bind_async
          (axios_get REVERSE_NOMINATIM_API_URL
             [(''lat'', PNum lat'), (''lon'', PNum lng'), (''format'', PStr ''json''),
              (''addressdetails'', PNum 1), (''zoom'', PNum 18)])
          (\<lambda>response.
             case address_of response of
               Some (a, display) \<Rightarrow>
                 Return \<lparr>pincode = or_else (postcode a) ''N/A'',
                         latitude = toFixed 6 lat', longitude = toFixed 6 lng',
                         fullAddress = or_else display ''Address Not Found''\<rparr>
             | None \<Rightarrow>
                 Return \<lparr>pincode = ''N/A'', latitude = toFixed 6 lat', longitude = toFixed 6 lng',
                         fullAddress = ''No Address Data Found''\<rparr>))
       (\<lambda>error.
          Return \<lparr>pincode = ''Error'', latitude = toFixed 6 lat', longitude = toFixed 6 lng',
                  fullAddress = ''Service Error''\<rparr>)"

section \<open>The component's state\<close>

record center_point =
  cp_lng :: jsnum
  cp_lat :: jsnum

record selected_feature =
  sel_name :: "string option"
  sel_id :: "string option"
  sel_imageURL :: "string option"
  sel_category :: "string option"
  centerPoint :: center_point

record logged_click =
  click_lng :: string
  click_lat :: string
  click_button :: string

record collected_point =
  point_lng :: string
  point_lat :: string

text \<open>
  The hooks of \<open>MapComponent\<close>: its \<open>useState\<close> cells, what it selects from the store
  (\<open>buildings\<close>, \<open>route\<close>, \<open>loading\<close>, \<open>error\<close>) and the ref \<open>map.current\<close>.
\<close>

record state =
  searchQuery :: string
  searchSuggestions :: "suggestion list"
  searchError :: "string option"
  reverseGeocodeInfo :: "geocode_info option"
  isReverseGeocoding :: bool
  mapCenter :: "string \<times> string"
  selectedFeature :: "selected_feature option"
  view360Url :: "string option"
  activeCategory :: string
  isCoordinateFormOpen :: bool
  routePoints :: "lnglat list"
  loggedClicks :: "logged_click list"
  collectedCoordinates :: "collected_point list"
  buildings :: "feature list option"
  route :: "payload option"
  loading :: bool
  store_error :: "string option"
  map_current :: "map_state option"

text \<open>
  Modelled from the spec: the initial values of what the component selects from the
  store (\<open>buildings\<close>, \<open>route\<close>, \<open>loading\<close>, \<open>error\<close>) belong to the store slice
  \<open>../redux/mapSlice\<close>, which is not among the sources; the building dataset arrives
  later, the route is optional and none has been retrieved. The other fields are the
  arguments of the component's \<open>useState\<close> calls.
\<close>

definition initial_state :: state where
  "initial_state =
     \<lparr>searchQuery = [], searchSuggestions = [], searchError = None,
      reverseGeocodeInfo = None, isReverseGeocoding = False,
      mapCenter = (''83.21'', ''17.72''),
      selectedFeature = None, view360Url = None, activeCategory = ''All'',
      isCoordinateFormOpen = False, routePoints = [], loggedClicks = [],
      collectedCoordinates = [], buildings = None, route = None, loading = False,
      store_error = None, map_current = None\<rparr>"

text \<open>
  Modelled from the spec: the action \<open>setRoute\<close> of the store slice \<open>../redux/mapSlice\<close>,
  which is not among the sources. The route is an optional line retrieved from the
  routing service; dispatching \<open>setRoute\<close> stores its argument as the route.
\<close>

definition setRoute :: "payload option \<Rightarrow> state \<Rightarrow> state" where
  "setRoute r st = st\<lparr>route := r\<rparr>"

text \<open>
  Modelled from the spec: the action \<open>setError\<close> of the same slice. A failure surfaces as
  one error message; dispatching \<open>setError\<close> stores its argument as the error.
\<close>

definition setError :: "string \<Rightarrow> state \<Rightarrow> state" where
  "setError msg st = st\<lparr>store_error := Some msg\<rparr>"

text \<open>
  What is left of an asynchronous handler after its request: once the outcome is there,
  the updates it applies to the state of that moment.
\<close>

type_synonym task = "(state \<Rightarrow> state) async"

definition finished :: task where
  "finished = Return (\<lambda>s. s)"

definition on_map :: "(map_state \<Rightarrow> map_state) \<Rightarrow> state \<Rightarrow> state" where
  "on_map f st = st\<lparr>map_current := map_option f (map_current st)\<rparr>"

section \<open>Handlers of the component\<close>

record default_center =
  dc_lng :: rat
  dc_lat :: rat
  dc_zoom :: rat
  dc_pitch :: rat

definition DEFAULT_CENTER :: default_center where
  "DEFAULT_CENTER = \<lparr>dc_lng = 8323 / 100, dc_lat = 1772 / 100, dc_zoom = 14, dc_pitch = 65\<rparr>"

text \<open>
  \<open>map.current.flyTo(...)\<close> inside a handler: without a map the member access throws,
  with a map the library may.
\<close>

definition map_flyTo :: "flight \<Rightarrow> state \<Rightarrow> js_error + state" where
  "map_flyTo fl st =
     (case map_current st of
        None \<Rightarrow> Inl (TypeError ''map.current'')
      | Some m \<Rightarrow>
          (case flyTo fl m of
             Inl err \<Rightarrow> Inl err
           | Inr m' \<Rightarrow> Inr (st\<lparr>map_current := Some m'\<rparr>)))"

text \<open>
  A synchronous handler ends with the state it has reached and, when a statement threw,
  with the error; the setters called before the throw have taken effect.

  \<open>flyToLocation\<close>: \<open>zoom || 14\<close> takes a zoom of zero as absent; the four setters follow
  the camera call.
\<close>

definition flyToLocation :: "jsnum \<Rightarrow> jsnum \<Rightarrow> nat \<Rightarrow> state \<Rightarrow> state \<times> js_error option" where
  "flyToLocation lng' lat' zoom st =
     (case map_current st of
        None \<Rightarrow> (st, None)
      | Some m \<Rightarrow>
          (case map_flyTo \<lparr>fl_center = Position [lng', lat'],
                           fl_zoom = Some (of_nat (if zoom = 0 then 14 else zoom)),
                           fl_pitch = None, fl_bearing = None\<rparr> st of
             Inl err \<Rightarrow> (st, Some err)
           | Inr st1 \<Rightarrow>
               (st1\<lparr>searchSuggestions := [], searchQuery := [], searchError := None,
                    reverseGeocodeInfo := None\<rparr>, None)))"

definition handleReverseGeocode :: "rat \<Rightarrow> rat \<Rightarrow> state \<Rightarrow> state \<times> task" where
  "handleReverseGeocode lng' lat' st =
     (st\<lparr>isReverseGeocoding := True\<rparr>,
      bind_async (fetchPincodeAndAddress lat' lng')
        (\<lambda>info. Return (\<lambda>s. s\<lparr>reverseGeocodeInfo := Some info, isReverseGeocoding := False\<rparr>)))"

text \<open>
  \<open>handleSearch\<close>, the submit handler of the search form: what it does at once, and the
  lookup it then waits on. Its \<open>catch\<close> receives what \<open>flyToLocation\<close> throws.
\<close>

definition search_failed :: "js_error \<Rightarrow> state \<Rightarrow> state" where
  "search_failed err s =
     s\<lparr>searchError := Some (or_else (Some (message err)) ''Search service failed to connect.'')\<rparr>"

definition handleSearch :: "state \<Rightarrow> state \<times> task" where
  "handleSearch st =
     (let st1 = st\<lparr>searchError := None, searchSuggestions := []\<rparr>
      in if map_current st = None \<or> trim (searchQuery st) = [] then (st1, finished)
         else (st1,
               try_catch
                 (bind_async (fetchCoordinates (trim (searchQuery st)) 1)
                    (\<lambda>results.
                       Return (case results of
                                 [] \<Rightarrow> (\<lambda>s. s\<lparr>searchError :=
                                                 Some ''Location/Pincode not found or ambiguous.''\<rparr>)
                               | r # _ \<Rightarrow>
                                   (\<lambda>s. case flyToLocation (sg_lng r) (sg_lat r) (sg_zoom r) s of
                                          (s', None) \<Rightarrow> s'
                                        | (s', Some err) \<Rightarrow> search_failed err s'))))
                 (\<lambda>err. Return (search_failed err))))"

definition resetCollectedCoordinates :: "state \<Rightarrow> state" where
  "resetCollectedCoordinates st =
     st\<lparr>collectedCoordinates := [],
        isCoordinateFormOpen :=
          (if length (collectedCoordinates st) = 0 then False else isCoordinateFormOpen st)\<rparr>"

definition handleCancelInfoPanel :: "state \<Rightarrow> state" where
  "handleCancelInfoPanel st = st\<lparr>selectedFeature := None, view360Url := None\<rparr>"

definition handleCategoryClick :: "string \<Rightarrow> state \<Rightarrow> state" where
  "handleCategoryClick category st = st\<lparr>activeCategory := category\<rparr>"

text \<open>
  \<open>handleRoute\<close>: the route is emptied at once; after the reply it is stored, then the
  camera is moved, and a throw of either step ends in the error message of the \<open>catch\<close>.
\<close>

definition route_failed :: "state \<Rightarrow> state" where
  "route_failed s = setError ''Routing failed. Check routing service connection.'' s"

definition handleRoute :: "lnglat \<Rightarrow> state \<Rightarrow> state \<times> task" where
  "handleRoute endPoint st =
     (case map_current st of
        None \<Rightarrow> (st, finished)
      | Some m \<Rightarrow>
          (let startPoint = center m
           in (setRoute None st,
               try_catch
                 (bind_async
                    (axios_post (API_BASE_URL @ ''/route'')
                       [(''startLng'', PNum (lng startPoint)), (''startLat'', PNum (lat startPoint)),
                        (''endLng'', PNum (lng endPoint)), (''endLat'', PNum (lat endPoint))])
                    (\<lambda>response.
                       Return (\<lambda>s. case map_flyTo
                                           \<lparr>fl_center = Position [Num (lng startPoint),
                                                                  Num (lat startPoint)],
                                            fl_zoom = Some 16, fl_pitch = None, fl_bearing = None\<rparr>
                                           (setRoute (data response) s) of
                                     Inl err \<Rightarrow> route_failed (setRoute (data response) s)
                                   | Inr s' \<Rightarrow> s')))
                 (\<lambda>err. Return route_failed))))"

text \<open>
  \<open>resetMapView\<close>: the camera call is the first statement, so a throw there would leave
  the state as it is; the target is the default centre.
\<close>

definition resetMapView :: "state \<Rightarrow> state" where
  "resetMapView st =
     (case map_current st of
        None \<Rightarrow> st
      | Some m \<Rightarrow>
          (case flyTo \<lparr>fl_center = Position [Num (dc_lng DEFAULT_CENTER),
                                               Num (dc_lat DEFAULT_CENTER)],
                        fl_zoom = Some (dc_zoom DEFAULT_CENTER),
                        fl_pitch = Some (dc_pitch DEFAULT_CENTER),
                        fl_bearing = Some 0\<rparr> m of
             Inl err \<Rightarrow> st
           | Inr m1 \<Rightarrow>
               (let m2 = (if getSource BOX_SOURCE_ID m1 = None then m1
                          else setData BOX_SOURCE_ID [] m1)
                in (setRoute None
                      (st\<lparr>routePoints := [], collectedCoordinates := [], loggedClicks := []\<rparr>))
                   \<lparr>selectedFeature := None, view360Url := None, isCoordinateFormOpen := False,
                    activeCategory := ''All'', searchSuggestions := [], reverseGeocodeInfo := None,
                    map_current := Some m2\<rparr>)))"

subsection \<open>The initialization effect and the handlers it registers\<close>

definition new_map :: "closure \<Rightarrow> map_state" where
  "new_map cl =
     \<lparr>sources = [], layers = [], style_loaded = False,
      center = \<lparr>lng = dc_lng DEFAULT_CENTER, lat = dc_lat DEFAULT_CENTER\<rparr>,
      flights = [], images = [], image_loads = [], layer_click_handlers = [],
      handlers = cl\<rparr>"

text \<open>
  The effect returns at once when the map exists or the buildings are missing; otherwise
  it creates the map and registers handlers that close over this render's values.
\<close>

definition init_effect :: "state \<Rightarrow> state" where
  "init_effect st =
     (case map_current st of
        Some m \<Rightarrow> st
      | None \<Rightarrow>
          (case buildings st of
             None \<Rightarrow> st
           | Some b \<Rightarrow>
               st\<lparr>map_current :=
                     Some (new_map \<lparr>cap_buildings = b, cap_routePoints = routePoints st,
                                    cap_route = route st\<rparr>)\<rparr>))"

definition init_cleanup :: "state \<Rightarrow> state" where
  "init_cleanup st = st\<lparr>map_current := None\<rparr>"

text \<open>The map announces that its style has loaded and runs the load handler.\<close>

definition load_event :: "state \<Rightarrow> state \<times> js_error option" where
  "load_event st =
     (case map_current st of
        None \<Rightarrow> (st, None)
      | Some m \<Rightarrow>
          (let r = on_load (m\<lparr>style_loaded := True\<rparr>)
           in (st\<lparr>map_current := Some (fst r)\<rparr>, snd r)))"

definition on_move :: "state \<Rightarrow> state" where
  "on_move st =
     (case map_current st of
        None \<Rightarrow> st
      | Some m \<Rightarrow> st\<lparr>mapCenter := (toFixed 4 (lng (center m)), toFixed 4 (lat (center m)))\<rparr>)"

text \<open>
  A pointer event of the map: \<open>e.lngLat\<close>, \<open>e.originalEvent.button\<close>, and what lies at
  \<open>e.point\<close>: features, each under the id of the layer that would draw it, topmost first.
\<close>

record pointer_event =
  lngLat :: lnglat
  button :: nat
  rendered :: "(string \<times> feature) list"

text \<open>
  \<open>queryRenderedFeatures\<close> reports the features of layers the map has. When the query
  names layers and the map lacks one of them, the library reports that on its error
  channel and answers with the empty list.
\<close>

definition queryRenderedFeatures ::
  "map_state \<Rightarrow> pointer_event \<Rightarrow> string list option \<Rightarrow> (string \<times> feature) list" where
  "queryRenderedFeatures m e only =
     (let drawn = filter (\<lambda>r. getLayer (fst r) m \<noteq> None) (rendered e)
      in case only of
           None \<Rightarrow> drawn
         | Some ids \<Rightarrow>
             if list_all (\<lambda>i. getLayer i m \<noteq> None) ids
             then filter (\<lambda>r. fst r \<in> set ids) drawn
             else [])"

definition newClick :: "pointer_event \<Rightarrow> logged_click" where
  "newClick e =
     \<lparr>click_lng = toFixed 4 (lng (lngLat e)),
      click_lat = toFixed 4 (lat (lngLat e)),
      click_button = (if button e = 0 then ''LEFT''
                      else if button e = 2 then ''RIGHT'' else ''OTHER'')\<rparr>"

definition newPoint :: "pointer_event \<Rightarrow> collected_point" where
  "newPoint e =
     \<lparr>point_lng = toFixed 6 (lng (lngLat e)), point_lat = toFixed 6 (lat (lngLat e))\<rparr>"

text \<open>
  The mousedown handler. Both buffers are written through updater functions, which
  receive the value of the moment as \<open>prev\<close>.
\<close>

definition on_mousedown :: "pointer_event \<Rightarrow> state \<Rightarrow> state" where
  "on_mousedown e st =
     (let st1 = st\<lparr>loggedClicks := newClick e # take (MAX_LOGGED_CLICKS - 1) (loggedClicks st)\<rparr>
      in if button e = 2
         then (let prev = collectedCoordinates st1
               in setRoute None
                    (st1\<lparr>collectedCoordinates :=
                           (if length prev \<ge> MAX_COLLECTED_POINTS then prev
                            else prev @ [newPoint e]),
                         routePoints := []\<rparr>))
         else st1)"

text \<open>
  The click handler reads \<open>routePoints\<close> and \<open>route\<close> as plain variables, so it sees the
  values of its closure; the setters and \<open>dispatch\<close> act on the state of the moment. The
  handler belongs to the map and runs while \<open>map.current\<close> is that map.
\<close>

definition isFeatureClicked :: "(string \<times> feature) list \<Rightarrow> bool" where
  "isFeatureClicked features =
     list_ex (\<lambda>f. fst f = BUILDING_LAYER_ID \<or> fst f = ''viewpoint-markers''
                   \<or> fst f = PHOTO_MARKER_LAYER_ID) features"

definition on_click :: "closure \<Rightarrow> pointer_event \<Rightarrow> state \<Rightarrow> state \<times> task" where
  "on_click cl e st =
     (if button e \<noteq> 0 then (st, finished)
      else
        (case map_current st of
           None \<Rightarrow> (st, finished)
         | Some m \<Rightarrow>
             if isFeatureClicked (queryRenderedFeatures m e None)
             then (st\<lparr>reverseGeocodeInfo := None\<rparr>, finished)
             else
               (let st1 = (if length (cap_routePoints cl) > 0 \<or> cap_route cl \<noteq> None
                           then setRoute None (st\<lparr>routePoints := []\<rparr>) else st);
                    st2 = st1\<lparr>selectedFeature := None, view360Url := None,
                              searchSuggestions := []\<rparr>
                in handleReverseGeocode (lng (lngLat e)) (lat (lngLat e)) st2)))"

text \<open>A click reaches the handler of the map that exists, with that map's closure.\<close>

definition click_event :: "pointer_event \<Rightarrow> state \<Rightarrow> state \<times> task" where
  "click_event e st =
     (case map_current st of
        None \<Rightarrow> (st, finished)
      | Some m \<Rightarrow> on_click (handlers m) e st)"

definition select :: "properties \<Rightarrow> center_point \<Rightarrow> selected_feature" where
  "select ps c =
     \<lparr>sel_name = prop_name ps, sel_id = prop_id ps, sel_imageURL = prop_imageURL ps,
      sel_category = prop_category ps, centerPoint = c\<rparr>"

text \<open>
  The contextmenu handler: the query over the two marker layers, then for a first
  feature with an image the selection, the image viewer, the camera, and the end of
  coordinate collection.
\<close>

definition on_contextmenu :: "pointer_event \<Rightarrow> state \<Rightarrow> state \<times> js_error option" where
  "on_contextmenu e st =
     (case map_current st of
        None \<Rightarrow> (st, Some (TypeError ''map.current''))
      | Some m \<Rightarrow>
          (case queryRenderedFeatures m e (Some [''viewpoint-markers'', PHOTO_MARKER_LAYER_ID]) of
             [] \<Rightarrow> (st, None)
           | hit # _ \<Rightarrow>
               (let feature = snd hit
                in if truthy (prop_imageURL (properties feature))
                   then (let st1 = st\<lparr>selectedFeature :=
                                         Some (select (properties feature)
                                                 \<lparr>cp_lng = Num (lng (lngLat e)),
                                                  cp_lat = Num (lat (lngLat e))\<rparr>),
                                       view360Url := prop_imageURL (properties feature)\<rparr>
                         in case map_flyTo \<lparr>fl_center = coordinates (geometry feature),
                                             fl_zoom = Some 16, fl_pitch = Some 60,
                                             fl_bearing = None\<rparr> st1 of
                              Inl err \<Rightarrow> (st1, Some err)
                            | Inr st2 \<Rightarrow>
                                (st2\<lparr>collectedCoordinates := [], isCoordinateFormOpen := False\<rparr>,
                                 None))
                   else (st, None))))"

text \<open>
  The click handler of the building layer. \<open>coordinates[0]\<close> must be a ring: on anything
  else \<open>coords.reduce\<close> throws before a setter has run. The camera call stands between
  the selection and the clearing of the reverse-geocode result.
\<close>

definition on_building_click :: "feature \<Rightarrow> state \<Rightarrow> state \<times> js_error option" where
  "on_building_click feature st =
     (case geometry feature of
        Point p \<Rightarrow> (st, Some (TypeError ''coords.reduce''))
      | Polygon rs \<Rightarrow>
          (case rs of
             [] \<Rightarrow> (st, Some (TypeError ''coords.reduce''))
           | coords # _ \<Rightarrow>
               (let c = centroid coords;
                    st1 = st\<lparr>selectedFeature :=
                               Some (select (properties feature)
                                       \<lparr>cp_lng = entry c 0, cp_lat = entry c 1\<rparr>)\<rparr>
                in case map_flyTo \<lparr>fl_center = Position c, fl_zoom = Some 16,
                                    fl_pitch = Some 60, fl_bearing = None\<rparr> st1 of
                     Inl err \<Rightarrow> (st1, Some err)
                   | Inr st2 \<Rightarrow> (st2\<lparr>reverseGeocodeInfo := None\<rparr>, None))))"

text \<open>
  The click handler of the photo-marker layer. The layer draws the viewpoint dataset,
  whose features are points by construction, so the handler is given the point and the
  properties of the feature hit.
\<close>

definition on_photo_click :: "position \<Rightarrow> properties \<Rightarrow> state \<Rightarrow> state \<times> js_error option" where
  "on_photo_click p ps st =
     (let st1 = st\<lparr>selectedFeature := Some (select ps \<lparr>cp_lng = entry p 0, cp_lat = entry p 1\<rparr>),
                   view360Url := (if truthy (prop_imageURL ps) then prop_imageURL ps
                                  else view360Url st)\<rparr>
      in case map_flyTo \<lparr>fl_center = Position p, fl_zoom = Some 16, fl_pitch = Some 60,
                          fl_bearing = None\<rparr> st1 of
           Inl err \<Rightarrow> (st1, Some err)
         | Inr st2 \<Rightarrow> (st2\<lparr>reverseGeocodeInfo := None\<rparr>, None))"

subsection \<open>Category filtering\<close>

definition category_filter :: "string \<Rightarrow> style" where
  "category_filter c = L [S ''=='', L [S ''get'', S ''category''], S c]"

text \<open>
  The body of the effect whose dependency list is \<open>[activeCategory]\<close>. It works on the map
  only once the style has loaded.
\<close>

definition category_effect :: "state \<Rightarrow> state" where
  "category_effect st =
     (case map_current st of
        None \<Rightarrow> st
      | Some m \<Rightarrow>
          if style_loaded m
          then (let c = activeCategory st;
                    extrusionColor = (if c = ''All'' then COLOR_GOLD else COLOR_PURPLE);
                    m1 = (if getLayer BUILDING_LAYER_ID m = None then m
                          else setFilter BUILDING_LAYER_ID
                                 (if c = ''All'' then None else Some (category_filter c))
                                 (setPaintProperty BUILDING_LAYER_ID ''fill-extrusion-color''
                                    (S extrusionColor) m));
                    m2 = (if getLayer PHOTO_MARKER_LAYER_ID m1 = None then m1
                          else setFilter PHOTO_MARKER_LAYER_ID
                                 (if c = ''All'' then Some (L [S ''has'', S ''imageURL''])
                                  else Some (L [S ''all'', L [S ''has'', S ''imageURL''],
                                                category_filter c]))
                                 m1)
                in st\<lparr>map_current := Some m2\<rparr>)
          else st)"

text \<open>
  A press of a category button. The button calls \<open>handleCategoryClick\<close>; the effect runs
  after the render only when \<open>activeCategory\<close> has changed, so a press of the category
  that is active already runs nothing.
\<close>

definition select_category :: "string \<Rightarrow> state \<Rightarrow> state" where
  "select_category category st =
     (if activeCategory st = category then handleCategoryClick category st
      else category_effect (handleCategoryClick category st))"

text \<open>
  What a filter expression of the three forms above lets through, by the properties of
  a feature: \<open>has\<close> asks for the presence of a property, \<open>==\<close> compares the two values,
  \<open>all\<close> is the conjunction.
\<close>

definition prop_text :: "properties \<Rightarrow> string \<Rightarrow> string option" where
  "prop_text ps k =
     (if k = ''name'' then prop_name ps
      else if k = ''id'' then prop_id ps
      else if k = ''category'' then prop_category ps
      else if k = ''imageURL'' then prop_imageURL ps
      else None)"

fun value_of :: "style \<Rightarrow> properties \<Rightarrow> string option" where
  "value_of (S v) ps = Some v"
| "value_of (L [S opr, S k]) ps = (if opr = ''get'' then prop_text ps k else None)"
| "value_of _ ps = None"

fun passes :: "style \<Rightarrow> properties \<Rightarrow> bool" where
  "passes (L (S opr # args)) ps =
     (if opr = ''has'' then (case args of [S k] \<Rightarrow> prop_text ps k \<noteq> None | _ \<Rightarrow> False)
      else if opr = ''=='' then (case args of [a, b] \<Rightarrow> value_of a ps = value_of b ps | _ \<Rightarrow> False)
      else if opr = ''all'' then list_all (\<lambda>f. passes f ps) args
      else False)"
| "passes _ ps = False"

definition shown :: "layer \<Rightarrow> properties \<Rightarrow> bool" where
  "shown l ps = (case layer_filter l of None \<Rightarrow> True | Some f \<Rightarrow> passes f ps)"

subsection \<open>Observing the layers of the map\<close>

definition style_ready :: "state \<Rightarrow> bool" where
  "style_ready st = (case map_current st of None \<Rightarrow> False | Some m \<Rightarrow> style_loaded m)"

definition layer_of :: "string \<Rightarrow> state \<Rightarrow> layer option" where
  "layer_of i st = (case map_current st of None \<Rightarrow> None | Some m \<Rightarrow> getLayer i m)"

text \<open>The filter of a layer: \<open>None\<close> without such a layer, \<open>Some None\<close> for a layer without filter.\<close>

definition filter_of :: "string \<Rightarrow> state \<Rightarrow> style option option" where
  "filter_of i st = map_option layer_filter (layer_of i st)"

definition paint_of :: "string \<Rightarrow> string \<Rightarrow> state \<Rightarrow> style option" where
  "paint_of i k st = (case layer_of i st of None \<Rightarrow> None | Some l \<Rightarrow> map_of (layer_paint l) k)"

definition draws :: "string \<Rightarrow> state \<Rightarrow> properties \<Rightarrow> bool" where
  "draws i st ps = (case layer_of i st of None \<Rightarrow> False | Some l \<Rightarrow> shown l ps)"

text \<open>What the map at hand answers to a query at the point of an event.\<close>

definition features_at :: "state \<Rightarrow> pointer_event \<Rightarrow> string list option \<Rightarrow> (string \<times> feature) list" where
  "features_at st e only =
     (case map_current st of None \<Rightarrow> [] | Some m \<Rightarrow> queryRenderedFeatures m e only)"

subsection \<open>Sequences of pointer events\<close>

datatype map_event =
    MouseDown pointer_event
  | ContextMenu pointer_event
  | Click pointer_event

fun deliver :: "map_event \<Rightarrow> state \<Rightarrow> state" where
  "deliver (MouseDown e) st = on_mousedown e st"
| "deliver (ContextMenu e) st = fst (on_contextmenu e st)"
| "deliver (Click e) st = fst (click_event e st)"

text \<open>
  The events in their order. The reply to a lookup that a click has started writes only
  the two reverse-geocode cells and is left out of the sequence.
\<close>

definition deliver_all :: "map_event list \<Rightarrow> state \<Rightarrow> state" where
  "deliver_all es st = foldl (\<lambda>s ev. deliver ev s) st es"

definition mousedowns :: "pointer_event list \<Rightarrow> state \<Rightarrow> state" where
  "mousedowns es st = foldl (\<lambda>s e. on_mousedown e s) st es"

text \<open>
  A press of the secondary button reaches the map as a mousedown with button 2, followed
  by the contextmenu event of the same point.
\<close>

definition secondary_press :: "lnglat \<Rightarrow> (string \<times> feature) list \<Rightarrow> map_event list" where
  "secondary_press p hits =
     [MouseDown \<lparr>lngLat = p, button = 2, rendered = hits\<rparr>,
      ContextMenu \<lparr>lngLat = p, button = 2, rendered = hits\<rparr>]"

section \<open>The running component\<close>

text \<open>
  A run of the component: its state, the requests that have not been answered yet, each
  with what its handler does once the outcome is there, and the debounce timer with the
  query it is going to look up.
\<close>

record world =
  component :: state
  pending :: "task list"
  timer :: "string option"

definition start :: world where
  "start = \<lparr>component = initial_state, pending = [], timer = None\<rparr>"

text \<open>
  The effect on \<open>searchQuery\<close>: the timer of the previous run is cleared; a query of fewer
  than three characters empties the suggestions, a longer one starts the timer. When
  the timer fires, the lookup of five suggestions is sent, and a failure is ignored.
\<close>

definition debounce_effect :: "world \<Rightarrow> world" where
  "debounce_effect w =
     (if length (searchQuery (component w)) < 3
      then w\<lparr>component := (component w)\<lparr>searchSuggestions := []\<rparr>, timer := None\<rparr>
      else w\<lparr>timer := Some (searchQuery (component w))\<rparr>)"

definition suggest :: "string \<Rightarrow> task" where
  "suggest q =
     try_catch
       (bind_async (fetchCoordinates q 5)
          (\<lambda>suggestions. Return (\<lambda>s. s\<lparr>searchSuggestions := suggestions\<rparr>)))
       (\<lambda>err. Return (\<lambda>s. s))"

text \<open>
  After a render the effects run whose dependency has changed, in the order of the
  source: the debounce effect on \<open>searchQuery\<close> and the category effect on
  \<open>activeCategory\<close>, both compared by value. The initialization effect depends on
  \<open>buildings\<close>, an object of the store that is new with every delivery; it is run where
  the dataset arrives. The three effects that draw the route, the route points and the
  collected coordinates write only to datasets and layers of their own (\<open>route-source\<close>,
  \<open>route-line\<close>, the route-point source, the collected-coordinates source and layer);
  no handler reads these, and they are not part of the run.
\<close>

definition after_render :: "state \<Rightarrow> world \<Rightarrow> world" where
  "after_render before w =
     (let w1 = (if searchQuery (component w) = searchQuery before then w else debounce_effect w)
      in if activeCategory (component w1) = activeCategory before then w1
         else w1\<lparr>component := category_effect (component w1)\<rparr>)"

text \<open>
  A delivery of the building dataset: the cleanup of the initialization effect removes
  the map of the previous run, if there is one, and the effect runs again.
\<close>

definition buildings_arrive :: "feature list \<Rightarrow> state \<Rightarrow> state" where
  "buildings_arrive fs st = init_effect (init_cleanup (st\<lparr>buildings := Some fs\<rparr>))"

text \<open>
  An asynchronous handler runs up to its first \<open>await\<close>; what is left of it waits for
  the reply. One that ends without a request has applied its updates by then.
\<close>

definition settle :: "task \<Rightarrow> world \<Rightarrow> world" where
  "settle t w =
     (case t of
        Return f \<Rightarrow> w\<lparr>component := f (component w)\<rparr>
      | Throw err \<Rightarrow> w
      | Await r k \<Rightarrow> w\<lparr>pending := pending w @ [t]\<rparr>)"

definition update :: "(state \<Rightarrow> state) \<Rightarrow> world \<Rightarrow> world" where
  "update f w = after_render (component w) (w\<lparr>component := f (component w)\<rparr>)"

definition launch :: "(state \<Rightarrow> state \<times> task) \<Rightarrow> world \<Rightarrow> world" where
  "launch h w =
     after_render (component w) (settle (snd (h (component w))) (w\<lparr>component := fst (h (component w))\<rparr>))"

definition reply :: "nat \<Rightarrow> js_error + response \<Rightarrow> world \<Rightarrow> world" where
  "reply i outcome w =
     after_render (component w)
       (settle (resume (pending w ! i) outcome)
          (w\<lparr>pending := take i (pending w) @ drop (Suc i) (pending w)\<rparr>))"

text \<open>The handlers written inline in the markup, and the camera reporting a new centre.\<close>

definition clear_route :: "state \<Rightarrow> state" where
  "clear_route st =
     (let st1 = setRoute None (st\<lparr>routePoints := []\<rparr>)
      in case map_current st1 of
           None \<Rightarrow> st1
         | Some m \<Rightarrow>
             if getSource ''route-source'' m = None then st1
             else st1\<lparr>map_current := Some (setData ''route-source'' [] m)\<rparr>)"

definition toggle_form :: "state \<Rightarrow> state" where
  "toggle_form st = st\<lparr>isCoordinateFormOpen := \<not> isCoordinateFormOpen st\<rparr>"

definition close_360 :: "state \<Rightarrow> state" where
  "close_360 st = st\<lparr>view360Url := None\<rparr>"

definition open_360 :: "state \<Rightarrow> state" where
  "open_360 st =
     (case selectedFeature st of
        None \<Rightarrow> st
      | Some s \<Rightarrow> st\<lparr>view360Url := sel_imageURL s\<rparr>)"

definition move_to :: "lnglat \<Rightarrow> state \<Rightarrow> state" where
  "move_to p st = on_move (on_map (\<lambda>m. m\<lparr>center := p\<rparr>) st)"

definition pick_suggestion :: "nat \<Rightarrow> state \<Rightarrow> state" where
  "pick_suggestion i st =
     (let s = searchSuggestions st ! i
      in fst (flyToLocation (sg_lng s) (sg_lat s) (sg_zoom s) st))"

text \<open>
  Modelled from the spec: what can happen to the component from outside the source.
  The store delivers the building dataset (the thunk \<open>fetchBuildings\<close> and the slice
  \<open>../redux/mapSlice\<close> are not among the sources) and its route is written by the
  dispatches of this component only; the panels \<open>InfoPanel\<close> and \<open>View360\<close>, not among
  the sources either, call the callbacks they are given (\<open>onRoute\<close> with the point to
  reach, \<open>on360View\<close>, \<open>onCancel\<close>, \<open>onClose\<close>) and nothing else. The other events are
  those of the source: the events of the map and the callback of the icon request, the
  controls of the markup, the timer, and the replies of the services.
\<close>

datatype event =
    BuildingsArrived "feature list"
  | MapLoad
  | MapMove lnglat
  | MapPointer map_event
  | BuildingClick feature
  | PhotoClick position properties
  | ImageLoaded bool
  | Typed string
  | TimerFired
  | Submit
  | PickSuggestion nat
  | ResetMap
  | ToggleForm
  | ClearCollected
  | ClearRoute
  | PressCategory string
  | PanelRoute lnglat
  | Panel360
  | PanelCancel
  | Close360
  | Reply nat "js_error + response"

text \<open>
  When an event can happen: a map event needs the map, the load event a style that has
  not loaded, a layer click the handler registered for the layer and the layer itself,
  the icon callback a request for the icon; a control must be rendered (the reset button
  with the map, the clear buttons and the panels on their conditions); a reply needs its
  request.
\<close>

definition on_the_map :: "(map_state \<Rightarrow> bool) \<Rightarrow> world \<Rightarrow> bool" where
  "on_the_map P w = (case map_current (component w) of None \<Rightarrow> False | Some m \<Rightarrow> P m)"

fun enabled :: "event \<Rightarrow> world \<Rightarrow> bool" where
  "enabled (BuildingsArrived fs) w = True"
| "enabled MapLoad w = on_the_map (\<lambda>m. \<not> style_loaded m) w"
| "enabled (MapMove p) w = on_the_map (\<lambda>m. - 90 \<le> lat p \<and> lat p \<le> 90) w"
| "enabled (MapPointer ev) w = on_the_map (\<lambda>m. True) w"
| "enabled (BuildingClick f) w =
     on_the_map (\<lambda>m. BUILDING_LAYER_ID \<in> set (layer_click_handlers m)
                      \<and> getLayer BUILDING_LAYER_ID m \<noteq> None) w"
| "enabled (PhotoClick p ps) w =
     on_the_map (\<lambda>m. PHOTO_MARKER_LAYER_ID \<in> set (layer_click_handlers m)
                      \<and> getLayer PHOTO_MARKER_LAYER_ID m \<noteq> None) w"
| "enabled (ImageLoaded failed) w = on_the_map (\<lambda>m. image_loads m \<noteq> []) w"
| "enabled (Typed q) w = True"
| "enabled TimerFired w = (timer w \<noteq> None)"
| "enabled Submit w = True"
| "enabled (PickSuggestion i) w = (i < length (searchSuggestions (component w)))"
| "enabled ResetMap w = on_the_map (\<lambda>m. True) w"
| "enabled ToggleForm w = True"
| "enabled ClearCollected w =
     (isCoordinateFormOpen (component w) \<and> collectedCoordinates (component w) \<noteq> [])"
| "enabled ClearRoute w = (routePoints (component w) \<noteq> [] \<or> route (component w) \<noteq> None)"
| "enabled (PressCategory c) w = (c \<in> set CATEGORY_OPTIONS)"
| "enabled (PanelRoute p) w = (selectedFeature (component w) \<noteq> None)"
| "enabled Panel360 w = (selectedFeature (component w) \<noteq> None)"
| "enabled PanelCancel w = (selectedFeature (component w) \<noteq> None)"
| "enabled Close360 w = (view360Url (component w) \<noteq> None)"
| "enabled (Reply i outcome) w = (i < length (pending w))"

fun fire :: "event \<Rightarrow> world \<Rightarrow> world" where
  "fire (BuildingsArrived fs) w = update (buildings_arrive fs) w"
| "fire MapLoad w = update (\<lambda>st. fst (load_event st)) w"
| "fire (MapMove p) w = update (move_to p) w"
| "fire (MapPointer (MouseDown e)) w = update (on_mousedown e) w"
| "fire (MapPointer (ContextMenu e)) w = update (\<lambda>st. fst (on_contextmenu e st)) w"
| "fire (MapPointer (Click e)) w = launch (click_event e) w"
| "fire (BuildingClick f) w = update (\<lambda>st. fst (on_building_click f st)) w"
| "fire (PhotoClick p ps) w = update (\<lambda>st. fst (on_photo_click p ps st)) w"
| "fire (ImageLoaded failed) w = update (on_map (on_image_loaded failed)) w"
| "fire (Typed q) w = update (\<lambda>st. st\<lparr>searchQuery := q\<rparr>) w"
| "fire TimerFired w =
     (case timer w of
        None \<Rightarrow> w
      | Some q \<Rightarrow> launch (\<lambda>st. (st, suggest q)) (w\<lparr>timer := None\<rparr>))"
| "fire Submit w = launch handleSearch w"
| "fire (PickSuggestion i) w = update (pick_suggestion i) w"
| "fire ResetMap w = update resetMapView w"
| "fire ToggleForm w = update toggle_form w"
| "fire ClearCollected w = update resetCollectedCoordinates w"
| "fire ClearRoute w = update clear_route w"
| "fire (PressCategory c) w = update (handleCategoryClick c) w"
| "fire (PanelRoute p) w = launch (handleRoute p) w"
| "fire Panel360 w = update open_360 w"
| "fire PanelCancel w = update handleCancelInfoPanel w"
| "fire Close360 w = update close_360 w"
| "fire (Reply i outcome) w = reply i outcome w"

definition step :: "event \<Rightarrow> world \<Rightarrow> world" where
  "step ev w = (if enabled ev w then fire ev w else w)"

text \<open>The component after a sequence of events, from its first render on.\<close>

definition after :: "event list \<Rightarrow> world" where
  "after es = foldl (\<lambda>w ev. step ev w) start es"

text \<open>
  What holds of the state throughout every run: no route and no route point, no
  selection and no image viewer; on the map no layer \<open>viewpoint-markers\<close> and no
  photo-marker layer, no layer click handler and no icon request, and handlers that have
  captured no route. A request that is waiting keeps all this when its reply arrives.
\<close>

definition quiet_map :: "map_state \<Rightarrow> bool" where
  "quiet_map m =
     (getLayer ''viewpoint-markers'' m = None \<and> getLayer PHOTO_MARKER_LAYER_ID m = None
      \<and> layer_click_handlers m = [] \<and> image_loads m = []
      \<and> cap_routePoints (handlers m) = [] \<and> cap_route (handlers m) = None)"




section \<open>Sample inputs\<close>

text \<open>
  Concrete values for the examples below: a point of the harbour (the doubles written
  \<open>83.23\<close> and \<open>17.72\<close>), a photo marker at a cabin, a reverse-geocode result, a route,
  a map created for an empty building collection before any route exists, a map that
  has the building layer and the photo-marker layer, and a state that holds a query, a
  search error, a route, a category, a reverse-geocode result and a collected point.
\<close>

definition harbour :: lnglat where
  "harbour = \<lparr>lng = 5856790577906975 / 70368744177664, lat = 623467073414103 / 35184372088832\<rparr>"

definition cabin_marker :: feature where
  "cabin_marker =
     \<lparr>geometry = Point [Num (8323 / 100), Num (1772 / 100)],
      properties =
        \<lparr>prop_name = Some ''Cabin 1'', prop_id = Some ''7'', prop_category = Some ''Cabin'',
         prop_imageURL = Some ''cabin1.jpg'', prop_height = None, prop_viewpoint = None\<rparr>\<rparr>"

definition port_info :: geocode_info where
  "port_info =
     \<lparr>pincode = ''530001'', latitude = ''17.720000'', longitude = ''83.230000'',
      fullAddress = ''Port Area''\<rparr>"

definition sample_route :: payload where
  "sample_route = RouteBody [[Num (8321 / 100), Num (1772 / 100)], [Num (8325 / 100), Num (1774 / 100)]]"

definition fresh_map :: map_state where
  "fresh_map = new_map \<lparr>cap_buildings = [], cap_routePoints = [], cap_route = None\<rparr>"

definition loaded_map :: map_state where
  "loaded_map = fresh_map\<lparr>style_loaded := True, layers := [building_layer, photo_marker_layer]\<rparr>"

definition busy_state :: state where
  "busy_state =
     initial_state\<lparr>map_current := Some loaded_map, searchQuery := ''Vi'',
                    searchError := Some ''Location/Pincode not found or ambiguous.'',
                    route := Some sample_route, activeCategory := ''Cabin'',
                    reverseGeocodeInfo := Some port_info,
                    collectedCoordinates :=
                      [\<lparr>point_lng = ''83.230000'', point_lat = ''17.720000''\<rparr>]\<rparr>"


definition loaded_run :: "event list" where
  "loaded_run = [BuildingsArrived [], MapLoad]"

definition early_choice :: "event list" where
  "early_choice = [BuildingsArrived [], PressCategory ''Building'', MapLoad]"








section \<open>Evaluating the number formatting\<close>

lemma digits_small: "n < 10 \<Longrightarrow> digits n = [digit_char n]"
  by (simp add: digits.simps)

lemma digits_step: "10 \<le> n \<Longrightarrow> digits n = digits (n div 10) @ [digit_char n]"
  by (simp add: digits.simps)

lemma floor_numeral_quotient:
  "\<lfloor>(numeral a / numeral b :: rat)\<rfloor> = numeral a div numeral b"
  using floor_divide_of_int_eq [of "numeral a" "numeral b", where ?'a = rat] by simp

lemmas toFixed_eval = toFixed_def fixed_digits_def digits_small digits_step digit_char_def
  floor_numeral_quotient

text \<open>A number within half a unit of the sixth decimal of \<open>k / 10^6\<close> is rounded to \<open>k\<close>.\<close>

lemma round_near:
  fixes x :: rat
  assumes "\<bar>x - of_int k / 1000000\<bar> < 1 / 2000000"
  shows "\<lfloor>x * 1000000 + 1 / 2\<rfloor> = k"
proof (rule floor_unique)
  from assms have lo: "of_int k / 1000000 - 1 / 2000000 < x"
    and hi: "x < of_int k / 1000000 + 1 / 2000000"
    by linarith+
  from lo show "of_int k \<le> x * 1000000 + 1 / 2" by simp
  from hi show "x * 1000000 + 1 / 2 < of_int k + 1" by simp
qed

lemma toFixed_near_17_72:
  assumes "\<bar>x - 1772 / 100\<bar> < 1 / 2000000"
  shows "toFixed 6 x = ''17.720000''"
proof -
  have "\<bar>x - of_int 17720000 / 1000000\<bar> < 1 / 2000000"
    using assms by simp
  then have n: "\<lfloor>x * 1000000 + 1 / 2\<rfloor> = 17720000"
    by (rule round_near)
  have "\<not> x < 0"
    using assms by linarith
  then show ?thesis
    by (simp add: toFixed_def fixed_digits_def n digits_small digits_step digit_char_def)
qed

lemma toFixed_near_83_23:
  assumes "\<bar>x - 8323 / 100\<bar> < 1 / 2000000"
  shows "toFixed 6 x = ''83.230000''"
proof -
  have "\<bar>x - of_int 83230000 / 1000000\<bar> < 1 / 2000000"
    using assms by simp
  then have n: "\<lfloor>x * 1000000 + 1 / 2\<rfloor> = 83230000"
    by (rule round_near)
  have "\<not> x < 0"
    using assms by linarith
  then show ?thesis
    by (simp add: toFixed_def fixed_digits_def n digits_small digits_step digit_char_def)
qed

section \<open>The load handler stops at the selection-box layer\<close>

lemmas ids = BUILDING_LAYER_ID_def ROUTE_POINT_LAYER_ID_def ROUTE_POINT_SOURCE_ID_def
  BOX_LAYER_ID_def BOX_SOURCE_ID_def CLICKED_POINTS_SOURCE_ID_def COLLECTED_COORDS_LAYER_ID_def
  COLLECTED_COORDS_SOURCE_ID_def PHOTO_MARKER_LAYER_ID_def

lemma resolve_declared: "resolve ''BOX_SOURCE_ID'' = Inr BOX_SOURCE_ID"
  by (simp add: resolve_def module_scope_def)

lemma resolve_box:
  "resolve ''BOX_SOURCE_SOURCE_ID'' = Inl (ReferenceError ''BOX_SOURCE_SOURCE_ID'')"
  by (simp add: resolve_def module_scope_def)

lemma map_of_filter_fst:
  "map_of (filter (\<lambda>e. fst e \<noteq> j) xs) i = (if i = j then None else map_of xs i)"
  by (induction xs) auto

lemma find_filter_id:
  "find (\<lambda>l. layer_id l = i) (filter (\<lambda>l. layer_id l \<noteq> j) xs) =
     (if i = j then None else find (\<lambda>l. layer_id l = i) xs)"
  by (induction xs) auto

lemma find_append_cases:
  "find P (xs @ ys) = (if find P xs = None then find P ys else find P xs)"
  by (induction xs) auto

lemma sources_cleanup:
  "map_of (sources (cleanupLayersAndSources j m)) i =
     (if i = j then None else map_of (sources m) i)"
  by (auto simp: cleanupLayersAndSources_def Let_def getSource_def removeSource_def
      removeLayer_def map_of_filter_fst)

lemma layers_cleanup:
  "find (\<lambda>l. layer_id l = i) (layers (cleanupLayersAndSources j m)) =
     (if i = j then None else find (\<lambda>l. layer_id l = i) (layers m))"
  by (auto simp: cleanupLayersAndSources_def Let_def getSource_def getLayer_def
      removeSource_def removeLayer_def find_filter_id)

lemma rest_cleanup:
  "layer_click_handlers (cleanupLayersAndSources j m) = layer_click_handlers m"
  "image_loads (cleanupLayersAndSources j m) = image_loads m"
  "handlers (cleanupLayersAndSources j m) = handlers m"
  "style_loaded (cleanupLayersAndSources j m) = style_loaded m"
  by (simp_all add: cleanupLayersAndSources_def Let_def removeLayer_def removeSource_def)

lemma addLayer_fresh:
  "find (\<lambda>x. layer_id x = layer_id l) (layers m) = None \<Longrightarrow>
   addLayer l m = m\<lparr>layers := layers m @ [l]\<rparr>"
  by (simp add: addLayer_def getLayer_def)

lemma run_ok: "run (ok f # cs) m = run cs (f m)"
  by (simp add: ok_def)

lemma run_addSource:
  "map_of (sources m) i = None \<Longrightarrow>
   run (addSource i d # cs) m = run cs (m\<lparr>sources := sources m @ [(i, d)]\<rparr>)"
  by (simp add: addSource_def getSource_def)

lemma run_box:
  "run (add_box_layer # cs) m = (m, Some (ReferenceError ''BOX_SOURCE_SOURCE_ID''))"
  by (simp add: add_box_layer_def resolve_box)

lemmas load_simps = on_load_def Let_def run_ok run_box run_addSource ids
  sources_cleanup layers_cleanup rest_cleanup building_layer_def route_point_layer_def
  addLayer_fresh find_append_cases getLayer_def getSource_def map_add_def

text \<open>
  Whatever the map held before: the six datasets and the first two layers are registered,
  then the handler throws; the selection-box layer, the layer of the clicked points, the
  icon request and the two layer handlers are never reached.
\<close>

lemma on_load_result:
  "\<exists>m'. on_load m = (m', Some (ReferenceError ''BOX_SOURCE_SOURCE_ID''))
        \<and> getSource ''buildings'' m' = Some (cap_buildings (handlers m))
        \<and> getSource ''viewpoint-source'' m' = Some (viewpointMarkers (cap_buildings (handlers m)))
        \<and> getSource ROUTE_POINT_SOURCE_ID m' = Some []
        \<and> getSource BOX_SOURCE_ID m' = Some []
        \<and> getSource CLICKED_POINTS_SOURCE_ID m' = Some []
        \<and> getSource COLLECTED_COORDS_SOURCE_ID m' = Some []
        \<and> getLayer BUILDING_LAYER_ID m' = Some building_layer
        \<and> getLayer ROUTE_POINT_LAYER_ID m' = Some route_point_layer
        \<and> getLayer BOX_LAYER_ID m' = None
        \<and> getLayer ''clicked-points-layer'' m' = None
        \<and> getLayer ''viewpoint-markers'' m' = None
        \<and> getLayer PHOTO_MARKER_LAYER_ID m' = getLayer PHOTO_MARKER_LAYER_ID m
        \<and> image_loads m' = image_loads m
        \<and> layer_click_handlers m' = layer_click_handlers m
        \<and> handlers m' = handlers m
        \<and> style_loaded m' = style_loaded m"
  by (simp add: load_simps del: run.simps(2))

text \<open>
  Claim C1 says that the load handler runs to completion and leaves the six datasets and
  the four layers registered. On the code it never does: for every map and every
  building collection the handler raises a \<open>ReferenceError\<close> for \<open>BOX_SOURCE_SOURCE_ID\<close>
  while it builds the selection-box layer, so the setup is never complete; the layer of
  the clicked points, the icon request and the click handlers of the layers are missing
  as well.
\<close>

theorem load_handler_throws:
  "snd (on_load m) = Some (ReferenceError ''BOX_SOURCE_SOURCE_ID'')
   \<and> \<not> setup_complete (cap_buildings (handlers m)) (fst (on_load m))
   \<and> getLayer BOX_LAYER_ID (fst (on_load m)) = None
   \<and> getLayer ''clicked-points-layer'' (fst (on_load m)) = None
   \<and> image_loads (fst (on_load m)) = image_loads m
   \<and> layer_click_handlers (fst (on_load m)) = layer_click_handlers m"
proof -
  obtain m' where r: "on_load m = (m', Some (ReferenceError ''BOX_SOURCE_SOURCE_ID''))"
    and box: "getLayer BOX_LAYER_ID m' = None"
    and clicked: "getLayer ''clicked-points-layer'' m' = None"
    and rest: "image_loads m' = image_loads m" "layer_click_handlers m' = layer_click_handlers m"
    using on_load_result [of m] by blast
  from box have "\<not> setup_complete (cap_buildings (handlers m)) m'"
    by (simp add: setup_complete_def layer_on_def)
  with r box clicked rest show ?thesis
    by simp
qed

theorem load_handler_throws_witness:
  "snd (on_load fresh_map) = Some (ReferenceError ''BOX_SOURCE_SOURCE_ID'')
   \<and> getLayer BOX_LAYER_ID (fst (on_load fresh_map)) = None
   \<and> layer_click_handlers (fst (on_load fresh_map)) = []"
  using load_handler_throws [of fresh_map]
  by (simp add: fresh_map_def new_map_def)

section \<open>The camera call inside a handler\<close>

lemma map_flyTo_Inr:
  "map_flyTo fl st = Inr st' \<longleftrightarrow>
     (\<exists>m. map_current st = Some m \<and> valid_center (fl_center fl)
          \<and> st' = st\<lparr>map_current := Some (m\<lparr>flights := flights m @ [fl]\<rparr>)\<rparr>)"
  by (auto simp: map_flyTo_def flyTo_def split: option.splits)


lemma query_nothing_rendered: "rendered e = [] \<Longrightarrow> queryRenderedFeatures m e only = []"
  by (simp add: queryRenderedFeatures_def split: option.splits)

text \<open>The default centre is a point the camera accepts.\<close>

lemma flyTo_default_center:
  "flyTo \<lparr>fl_center = Position [Num (dc_lng DEFAULT_CENTER), Num (dc_lat DEFAULT_CENTER)],
          fl_zoom = z, fl_pitch = p, fl_bearing = b\<rparr> m
     = Inr (m\<lparr>flights := flights m @
                 [\<lparr>fl_center = Position [Num (dc_lng DEFAULT_CENTER), Num (dc_lat DEFAULT_CENTER)],
                   fl_zoom = z, fl_pitch = p, fl_bearing = b\<rparr>]\<rparr>)"
  by (simp add: flyTo_def valid_center_def entry_def DEFAULT_CENTER_def)



section \<open>What every run preserves\<close>

lemma find_map_update:
  assumes "\<And>l. layer_id (g l) = layer_id l"
  shows "find (\<lambda>l. layer_id l = i) (map (\<lambda>l. if layer_id l = j then g l else l) ls) =
         map_option (\<lambda>l. if layer_id l = j then g l else l) (find (\<lambda>l. layer_id l = i) ls)"
  using assms by (induction ls) auto

lemma getLayer_setFilter:
  "getLayer i (setFilter j f m) =
     map_option (\<lambda>l. if layer_id l = j then l\<lparr>layer_filter := f\<rparr> else l) (getLayer i m)"
  by (simp add: getLayer_def setFilter_def find_map_update)

lemma getLayer_setPaintProperty:
  "getLayer i (setPaintProperty j k v m) =
     map_option
       (\<lambda>l. if layer_id l = j then l\<lparr>layer_paint := AList.update k v (layer_paint l)\<rparr> else l)
       (getLayer i m)"
  by (simp add: getLayer_def setPaintProperty_def find_map_update)

lemma getLayer_id: "getLayer i m = Some l \<Longrightarrow> layer_id l = i"
  by (auto simp: getLayer_def find_Some_iff)

lemma quiet_map_camera [simp]:
  "quiet_map (m\<lparr>flights := fs\<rparr>) = quiet_map m"
  "quiet_map (m\<lparr>center := p\<rparr>) = quiet_map m"
  "quiet_map (m\<lparr>sources := ss\<rparr>) = quiet_map m"
  by (simp_all add: quiet_map_def getLayer_def)

lemma quiet_map_setData [simp]: "quiet_map (setData i d m) = quiet_map m"
  by (simp add: setData_def)

lemma quiet_map_setFilter [simp]: "quiet_map (setFilter i f m) = quiet_map m"
  by (simp add: quiet_map_def getLayer_setFilter) (simp add: setFilter_def)

lemma quiet_map_setPaintProperty [simp]: "quiet_map (setPaintProperty i k v m) = quiet_map m"
  by (simp add: quiet_map_def getLayer_setPaintProperty) (simp add: setPaintProperty_def)






























lemma after_snoc: "after (es @ [ev]) = step ev (after es)"
  by (simp add: after_def)




lemma settle_component:
  "t = finished \<or> (\<exists>r k. t = Await r k) \<Longrightarrow> component (settle t w) = component w"
  by (auto simp: settle_def finished_def)

lemma click_in_a_run:
  assumes "map_current (component w) \<noteq> None"
  shows "component (step (MapPointer (Click e)) w) = fst (click_event e (component w))"
proof -
  have same: "searchQuery (fst (click_event e st)) = searchQuery st
              \<and> activeCategory (fst (click_event e st)) = activeCategory st" for st
    by (auto simp: click_event_def on_click_def handleReverseGeocode_def Let_def setRoute_def
        split: option.splits)
  have "snd (click_event e st) = finished \<or> (\<exists>r k. snd (click_event e st) = Await r k)" for st
    by (auto simp: click_event_def on_click_def handleReverseGeocode_def Let_def
        fetchPincodeAndAddress_def axios_get_def split: option.splits)
  then have "component (settle (snd (click_event e st)) (w\<lparr>component := st'\<rparr>)) = st'" for st st'
    by (simp add: settle_component)
  with assms same [of "component w"] show ?thesis
    by (auto simp: step_def on_the_map_def launch_def after_render_def Let_def)
qed

section \<open>Three runs\<close>

text \<open>
  The load event on an existing map ends with the \<open>ReferenceError\<close> of the load handler
  and changes nothing but the map: the style counts as loaded, the building layer is
  there, the photo-marker layer is as before.
\<close>

lemma load_event_result:
  assumes "map_current st = Some m"
  shows "\<exists>m'. fst (load_event st) = st\<lparr>map_current := Some m'\<rparr>
          \<and> snd (load_event st) = Some (ReferenceError ''BOX_SOURCE_SOURCE_ID'')
          \<and> style_loaded m'
          \<and> getLayer BUILDING_LAYER_ID m' = Some building_layer
          \<and> getLayer PHOTO_MARKER_LAYER_ID m' = getLayer PHOTO_MARKER_LAYER_ID m
          \<and> getLayer ''viewpoint-markers'' m' = None
          \<and> layer_click_handlers m' = layer_click_handlers m
          \<and> image_loads m' = image_loads m
          \<and> handlers m' = handlers m"
proof -
  obtain m' where "on_load (m\<lparr>style_loaded := True\<rparr>) = (m', Some (ReferenceError ''BOX_SOURCE_SOURCE_ID''))"
    and "getLayer BUILDING_LAYER_ID m' = Some building_layer"
    and "getLayer ''viewpoint-markers'' m' = None"
    and "getLayer PHOTO_MARKER_LAYER_ID m' = getLayer PHOTO_MARKER_LAYER_ID (m\<lparr>style_loaded := True\<rparr>)"
    and "image_loads m' = image_loads (m\<lparr>style_loaded := True\<rparr>)"
    and "layer_click_handlers m' = layer_click_handlers (m\<lparr>style_loaded := True\<rparr>)"
    and "handlers m' = handlers (m\<lparr>style_loaded := True\<rparr>)"
    and "style_loaded m' = style_loaded (m\<lparr>style_loaded := True\<rparr>)"
    using on_load_result [of "m\<lparr>style_loaded := True\<rparr>"] by blast
  with assms show ?thesis
    by (auto simp: load_event_def Let_def getLayer_def)
qed

lemma run_arrival:
  "after [BuildingsArrived b] =
     start\<lparr>component := initial_state
               \<lparr>buildings := Some b,
                map_current := Some (new_map \<lparr>cap_buildings = b, cap_routePoints = [],
                                               cap_route = None\<rparr>)\<rparr>\<rparr>"
  by (simp add: after_def step_def update_def after_render_def start_def initial_state_def
      buildings_arrive_def init_effect_def init_cleanup_def Let_def)




lemma step_load:
  assumes "map_current (component w) = Some m" and "\<not> style_loaded m"
  shows "component (step MapLoad w) = fst (load_event (component w))"
proof -
  obtain m' where "fst (load_event (component w)) = (component w)\<lparr>map_current := Some m'\<rparr>"
    using load_event_result [OF assms(1)] by blast
  with assms show ?thesis
    by (simp add: step_def on_the_map_def update_def after_render_def Let_def)
qed

lemma loaded_run_state:
  "style_ready (component (after loaded_run))
   \<and> activeCategory (component (after loaded_run)) = ''All''
   \<and> layer_of BUILDING_LAYER_ID (component (after loaded_run)) = Some building_layer
   \<and> layer_of PHOTO_MARKER_LAYER_ID (component (after loaded_run)) = None"
proof -
  let ?w = "after [BuildingsArrived []]"
  have w: "map_current (component ?w) = Some (new_map \<lparr>cap_buildings = [], cap_routePoints = [], cap_route = None\<rparr>)"
    "activeCategory (component ?w) = ''All''"
    by (simp_all add: run_arrival start_def initial_state_def)
  have fresh: "\<not> style_loaded (new_map \<lparr>cap_buildings = [], cap_routePoints = [], cap_route = None\<rparr>)"
    "getLayer PHOTO_MARKER_LAYER_ID (new_map \<lparr>cap_buildings = [], cap_routePoints = [], cap_route = None\<rparr>) = None"
    by (simp_all add: new_map_def getLayer_def)
  have "after loaded_run = step MapLoad ?w"
    by (simp add: loaded_run_def after_def)
  then have c: "component (after loaded_run) = fst (load_event (component ?w))"
    using step_load [OF w(1) fresh(1)] by simp
  from load_event_result [OF w(1)] w(2) fresh(2) show ?thesis
    unfolding c by (auto simp: style_ready_def layer_of_def)
qed


section \<open>Selection and reverse geocoding\<close>







lemma contextmenu_promotion:
  assumes "features_at st e (Some [''viewpoint-markers'', PHOTO_MARKER_LAYER_ID]) = hit # others"
    and "truthy (prop_imageURL (properties (snd hit)))"
  shows "selectedFeature (fst (on_contextmenu e st))
           = Some (select (properties (snd hit))
                     \<lparr>cp_lng = Num (lng (lngLat e)), cp_lat = Num (lat (lngLat e))\<rparr>)
       \<and> view360Url (fst (on_contextmenu e st)) = prop_imageURL (properties (snd hit))
       \<and> reverseGeocodeInfo (fst (on_contextmenu e st)) = reverseGeocodeInfo st"
  using assms
  by (auto simp: on_contextmenu_def features_at_def Let_def map_flyTo_def flyTo_def
      split: option.splits)




section \<open>Primary-button clicks beside every feature\<close>




section \<open>The two bounded buffers\<close>

lemma collected_on_map [simp]: "collectedCoordinates (on_map f st) = collectedCoordinates st"
  by (simp add: on_map_def)

lemma collected_setRoute [simp]: "collectedCoordinates (setRoute r st) = collectedCoordinates st"
  by (simp add: setRoute_def)

lemma mousedown_collected_le:
  "length (collectedCoordinates st) \<le> MAX_COLLECTED_POINTS \<Longrightarrow>
   length (collectedCoordinates (on_mousedown e st)) \<le> MAX_COLLECTED_POINTS"
  by (simp add: on_mousedown_def Let_def)

lemma contextmenu_collected_le:
  "length (collectedCoordinates st) \<le> MAX_COLLECTED_POINTS \<Longrightarrow>
   length (collectedCoordinates (fst (on_contextmenu e st))) \<le> MAX_COLLECTED_POINTS"
  by (auto simp: on_contextmenu_def Let_def map_flyTo_Inr
      split: list.splits option.splits sum.splits)

lemma click_collected:
  "collectedCoordinates (fst (click_event e st)) = collectedCoordinates st"
  by (simp add: click_event_def on_click_def handleReverseGeocode_def Let_def
      split: option.splits)

lemma deliver_collected_le:
  "length (collectedCoordinates st) \<le> MAX_COLLECTED_POINTS \<Longrightarrow>
   length (collectedCoordinates (deliver ev st)) \<le> MAX_COLLECTED_POINTS"
  by (cases ev) (simp_all add: mousedown_collected_le contextmenu_collected_le click_collected)

lemma deliver_all_collected_le:
  "length (collectedCoordinates st) \<le> MAX_COLLECTED_POINTS \<Longrightarrow>
   length (collectedCoordinates (deliver_all es st)) \<le> MAX_COLLECTED_POINTS"
  unfolding deliver_all_def
  by (induction es arbitrary: st) (simp_all add: deliver_collected_le)

text \<open>Below the capacity a press of the secondary button beside every marker adds its point.\<close>

lemma secondary_press_collects:
  assumes "length (collectedCoordinates st) < MAX_COLLECTED_POINTS"
  shows "collectedCoordinates (deliver_all (secondary_press p []) st)
           = collectedCoordinates st @ [newPoint \<lparr>lngLat = p, button = 2, rendered = []\<rparr>]"
  using assms
  by (simp add: deliver_all_def secondary_press_def on_mousedown_def on_contextmenu_def
      query_nothing_rendered Let_def split: option.splits)

text \<open>
  Claim C4: over every sequence of pointer events of the map (mousedown, contextmenu and
  click in any order, so in particular over every sequence of secondary-button presses)
  the collected-coordinates buffer never holds more than 155 entries, and a mousedown
  that finds 155 entries in it leaves the buffer as it is.
\<close>

theorem collected_never_exceeds_capacity:
  "(length (collectedCoordinates st) \<le> 155 \<longrightarrow>
      length (collectedCoordinates (deliver_all es st)) \<le> 155)
   \<and> (length (collectedCoordinates st) = 155 \<longrightarrow>
        collectedCoordinates (on_mousedown e st) = collectedCoordinates st)"
proof -
  have "length (collectedCoordinates (deliver_all es st)) \<le> 155"
    if "length (collectedCoordinates st) \<le> 155"
    using deliver_all_collected_le [of st es] that by (simp add: MAX_COLLECTED_POINTS_def)
  moreover have "collectedCoordinates (on_mousedown e st) = collectedCoordinates st"
    if "length (collectedCoordinates st) = 155"
    using that by (simp add: on_mousedown_def Let_def MAX_COLLECTED_POINTS_def)
  ultimately show ?thesis
    by blast
qed

theorem collected_never_exceeds_capacity_witness:
  "length (collectedCoordinates
             (deliver_all (secondary_press harbour [] @ secondary_press harbour [])
                (initial_state\<lparr>map_current := Some fresh_map\<rparr>))) \<le> 155
   \<and> collectedCoordinates
        (on_mousedown \<lparr>lngLat = harbour, button = 2, rendered = []\<rparr>
           (initial_state\<lparr>collectedCoordinates :=
                            replicate 155 \<lparr>point_lng = ''83.230000'', point_lat = ''17.720000''\<rparr>\<rparr>))
      = replicate 155 \<lparr>point_lng = ''83.230000'', point_lat = ''17.720000''\<rparr>"
  using collected_never_exceeds_capacity
    [of "initial_state\<lparr>map_current := Some fresh_map\<rparr>"
        "secondary_press harbour [] @ secondary_press harbour []"]
    collected_never_exceeds_capacity
    [of "initial_state\<lparr>collectedCoordinates :=
                          replicate 155 \<lparr>point_lng = ''83.230000'', point_lat = ''17.720000''\<rparr>\<rparr>"
        _ "\<lparr>lngLat = harbour, button = 2, rendered = []\<rparr>"]
  by (simp add: initial_state_def)

lemma mousedown_logged:
  "loggedClicks (on_mousedown e st) =
     [\<lparr>click_lng = toFixed 4 (lng (lngLat e)), click_lat = toFixed 4 (lat (lngLat e)),
       click_button = (if button e = 0 then ''LEFT''
                       else if button e = 2 then ''RIGHT'' else ''OTHER'')\<rparr>]"
  by (simp add: on_mousedown_def newClick_def Let_def MAX_LOGGED_CLICKS_def setRoute_def)

lemma mousedowns_snoc: "mousedowns (es @ [e]) st = on_mousedown e (mousedowns es st)"
  by (simp add: mousedowns_def)

text \<open>
  Claim C5: after any sequence of mousedown events the logged-clicks buffer holds at most
  one entry, and after a sequence that is not empty the entry is the click of the last
  event: its longitude and its latitude to four decimals and the class of its button,
  \<open>LEFT\<close> for button 0, \<open>RIGHT\<close> for button 2 and \<open>OTHER\<close> for any other.
\<close>

theorem logged_clicks_hold_latest:
  "length (loggedClicks (mousedowns es initial_state)) \<le> 1
   \<and> (es \<noteq> [] \<longrightarrow>
        loggedClicks (mousedowns es st) =
          [\<lparr>click_lng = toFixed 4 (lng (lngLat (last es))),
            click_lat = toFixed 4 (lat (lngLat (last es))),
            click_button = (if button (last es) = 0 then ''LEFT''
                            else if button (last es) = 2 then ''RIGHT'' else ''OTHER'')\<rparr>])"
proof -
  have latest:
    "loggedClicks (mousedowns es s) =
       [\<lparr>click_lng = toFixed 4 (lng (lngLat (last es))),
         click_lat = toFixed 4 (lat (lngLat (last es))),
         click_button = (if button (last es) = 0 then ''LEFT''
                         else if button (last es) = 2 then ''RIGHT'' else ''OTHER'')\<rparr>]"
    if "es \<noteq> []" for s
    using that by (cases es rule: rev_cases) (simp_all add: mousedowns_snoc mousedown_logged)
  have "length (loggedClicks (mousedowns es initial_state)) \<le> 1"
  proof (cases "es = []")
    case True
    then show ?thesis by (simp add: mousedowns_def initial_state_def)
  next
    case False
    then show ?thesis by (simp add: latest)
  qed
  with latest show ?thesis
    by blast
qed

theorem logged_clicks_hold_latest_witness:
  "loggedClicks
     (mousedowns [\<lparr>lngLat = \<lparr>lng = 333 / 4, lat = 71 / 4\<rparr>, button = 0, rendered = []\<rparr>,
                  \<lparr>lngLat = harbour, button = 2, rendered = []\<rparr>]
        initial_state)
     = [\<lparr>click_lng = ''83.2300'', click_lat = ''17.7200'', click_button = ''RIGHT''\<rparr>]
   \<and> loggedClicks
       (mousedowns [\<lparr>lngLat = harbour, button = 2, rendered = []\<rparr>,
                    \<lparr>lngLat = \<lparr>lng = 5454861 / 65536, lat = 1161363 / 65536\<rparr>, button = 0,
                     rendered = []\<rparr>]
          initial_state)
     = [\<lparr>click_lng = ''83.2346'', click_lat = ''17.7210'', click_button = ''LEFT''\<rparr>]
   \<and> loggedClicks
       (mousedowns [\<lparr>lngLat = \<lparr>lng = - (1 / 8), lat = 103 / 2\<rparr>, button = 1, rendered = []\<rparr>]
          busy_state)
     = [\<lparr>click_lng = ''-0.1250'', click_lat = ''51.5000'', click_button = ''OTHER''\<rparr>]"
  using logged_clicks_hold_latest
    [of "[\<lparr>lngLat = \<lparr>lng = 333 / 4, lat = 71 / 4\<rparr>, button = 0, rendered = []\<rparr>,
          \<lparr>lngLat = harbour, button = 2, rendered = []\<rparr>]" initial_state]
    logged_clicks_hold_latest
    [of "[\<lparr>lngLat = harbour, button = 2, rendered = []\<rparr>,
          \<lparr>lngLat = \<lparr>lng = 5454861 / 65536, lat = 1161363 / 65536\<rparr>, button = 0,
           rendered = []\<rparr>]" initial_state]
    logged_clicks_hold_latest
    [of "[\<lparr>lngLat = \<lparr>lng = - (1 / 8), lat = 103 / 2\<rparr>, button = 1, rendered = []\<rparr>]"
        busy_state]
  by (simp add: harbour_def toFixed_eval)

section \<open>The search form\<close>

text \<open>
  Claim C6 as amended: when the map exists and the trimmed query is not empty, a submit
  of the search form sends at once a forward lookup for the trimmed query with result
  limit 1, whatever the length of the query (so also below three characters); when the
  query is empty or white space only, or the map does not exist, it sends nothing.
\<close>

theorem submit_issues_single_lookup:
  "(map_current st \<noteq> None \<and> trim (searchQuery st) \<noteq> [] \<longrightarrow>
      issued (snd (handleSearch st)) =
        Some (Get NOMINATIM_API_URL
                [(''q'', PStr (trim (searchQuery st))), (''format'', PStr ''json''),
                 (''limit'', PNum 1), (''addressdetails'', PNum 1)]))
   \<and> (map_current st = None \<or> trim (searchQuery st) = [] \<longrightarrow>
        issued (snd (handleSearch st)) = None)"
  by (auto simp add: handleSearch_def Let_def fetchCoordinates_def axios_get_def finished_def)

theorem submit_issues_single_lookup_witness:
  "issued (snd (handleSearch (initial_state\<lparr>map_current := Some fresh_map, searchQuery := '' Vi ''\<rparr>)))
     = Some (Get NOMINATIM_API_URL
               [(''q'', PStr ''Vi''), (''format'', PStr ''json''),
                (''limit'', PNum 1), (''addressdetails'', PNum 1)])"
  using submit_issues_single_lookup
    [of "initial_state\<lparr>map_current := Some fresh_map, searchQuery := '' Vi ''\<rparr>"]
  by (simp add: trim_def is_space_def)

text \<open>
  The claim as stated fails: for a query of two spaces, and for the empty query, a submit
  on an existing map sends no lookup.
\<close>

theorem submit_blank_query_counterexample:
  "issued (snd (handleSearch (initial_state\<lparr>map_current := Some fresh_map, searchQuery := ''  ''\<rparr>)))
     = None
   \<and> issued (snd (handleSearch (initial_state\<lparr>map_current := Some fresh_map, searchQuery := []\<rparr>)))
     = None"
  by (simp add: handleSearch_def Let_def trim_def is_space_def finished_def)

section \<open>Category filtering\<close>

lemma passes_category: "passes (category_filter c) ps = (prop_category ps = Some c)"
  by (auto simp: category_filter_def prop_text_def)

lemma passes_photo:
  "passes (L [S ''all'', L [S ''has'', S ''imageURL''], category_filter c]) ps =
     (prop_imageURL ps \<noteq> None \<and> prop_category ps = Some c)"
  by (auto simp: category_filter_def prop_text_def)

lemma press_category:
  "component (fire (PressCategory c) w) = select_category c (component w)"
  by (simp add: update_def after_render_def select_category_def handleCategoryClick_def Let_def)

lemma step_category:
  "c \<in> set CATEGORY_OPTIONS \<Longrightarrow> component (step (PressCategory c) w) = select_category c (component w)"
  using press_category [of c w] by (simp add: step_def)

lemma select_category_same:
  "activeCategory st = c \<Longrightarrow> select_category c st = st"
  by (simp add: select_category_def handleCategoryClick_def)

lemma category_effect_waits_for_style:
  "\<not> style_ready st \<Longrightarrow> category_effect st = st"
  by (simp add: category_effect_def style_ready_def split: option.splits)

lemma select_category_waits_for_style:
  "\<not> style_ready st \<Longrightarrow> select_category c st = st\<lparr>activeCategory := c\<rparr>"
  using category_effect_waits_for_style [of "st\<lparr>activeCategory := c\<rparr>"]
  by (simp add: select_category_def handleCategoryClick_def style_ready_def)

lemma select_category_change:
  "activeCategory st \<noteq> c \<Longrightarrow> select_category c st = category_effect (st\<lparr>activeCategory := c\<rparr>)"
  by (simp add: select_category_def handleCategoryClick_def)

lemma style_ready_select_category: "style_ready (select_category c st) = style_ready st"
  by (auto simp: select_category_def handleCategoryClick_def category_effect_def style_ready_def
      Let_def setFilter_def setPaintProperty_def split: option.splits)

lemma select_category_without_photo_layer:
  "filter_of PHOTO_MARKER_LAYER_ID st = None \<Longrightarrow>
   filter_of PHOTO_MARKER_LAYER_ID (select_category c st) = None"
  by (auto simp: select_category_def handleCategoryClick_def category_effect_def Let_def
      filter_of_def layer_of_def getLayer_setFilter getLayer_setPaintProperty
      split: option.splits)

lemmas category_simps = category_effect_def Let_def
  getLayer_setFilter getLayer_setPaintProperty shown_def passes_category passes_photo
  update_conv' building_layer_def photo_marker_layer_def prop_text_def BUILDING_LAYER_ID_def
  PHOTO_MARKER_LAYER_ID_def style_ready_def layer_of_def filter_of_def paint_of_def draws_def

lemma category_change_on_loaded_style:
  assumes "style_ready st" and "activeCategory st \<noteq> c"
  shows "(filter_of BUILDING_LAYER_ID st \<noteq> None \<longrightarrow>
            (c = ''All'' \<longrightarrow>
               paint_of BUILDING_LAYER_ID ''fill-extrusion-color'' (select_category c st)
                 = Some (S COLOR_GOLD)
               \<and> map_of (layer_paint building_layer) ''fill-extrusion-color'' = Some (S COLOR_GOLD)
               \<and> filter_of BUILDING_LAYER_ID (select_category c st) = Some None)
            \<and> (c \<noteq> ''All'' \<longrightarrow>
                 paint_of BUILDING_LAYER_ID ''fill-extrusion-color'' (select_category c st)
                   = Some (S COLOR_PURPLE)
                 \<and> filter_of BUILDING_LAYER_ID (select_category c st)
                     = Some (Some (category_filter c))
                 \<and> draws BUILDING_LAYER_ID (select_category c st) ps
                     = (prop_category ps = Some c)))
         \<and> (filter_of PHOTO_MARKER_LAYER_ID st \<noteq> None \<longrightarrow>
              (c = ''All'' \<longrightarrow>
                 filter_of PHOTO_MARKER_LAYER_ID (select_category c st)
                   = Some (layer_filter photo_marker_layer))
              \<and> (c \<noteq> ''All'' \<longrightarrow>
                   filter_of PHOTO_MARKER_LAYER_ID (select_category c st)
                     = Some (Some (L [S ''all'', L [S ''has'', S ''imageURL''], category_filter c]))
                   \<and> draws PHOTO_MARKER_LAYER_ID (select_category c st) ps
                       = (prop_imageURL ps \<noteq> None \<and> prop_category ps = Some c)))
         \<and> (filter_of PHOTO_MARKER_LAYER_ID st = None \<longrightarrow>
              filter_of PHOTO_MARKER_LAYER_ID (select_category c st) = None)
         \<and> activeCategory (select_category c st) = c"
proof -
  from assms obtain m where m: "map_current st = Some m" "style_loaded m"
    by (auto simp: style_ready_def split: option.splits)
  have ids: "layer_id l = i" if "getLayer i m = Some l" for i l
    using that by (rule getLayer_id)
  have sc: "select_category c st = category_effect (st\<lparr>activeCategory := c\<rparr>)"
    using assms(2) by (rule select_category_change)
  show ?thesis
  proof (cases "getLayer BUILDING_LAYER_ID m")
    case None
    note b = this
    show ?thesis
    proof (cases "getLayer PHOTO_MARKER_LAYER_ID m")
      case None
      with b m show ?thesis
        unfolding sc by (simp add: filter_of_def layer_of_def category_effect_def)
    next
      case (Some pl)
      with b m ids [OF Some] show ?thesis
        unfolding sc by (simp add: category_simps)
    qed
  next
    case (Some bl)
    note b = this
    show ?thesis
    proof (cases "getLayer PHOTO_MARKER_LAYER_ID m")
      case None
      with b m ids [OF b] show ?thesis
        unfolding sc by (simp add: category_simps)
    next
      case (Some pl)
      with b m ids [OF b] ids [OF Some] show ?thesis
        unfolding sc by (simp add: category_simps)
    qed
  qed
qed

text \<open>
  Claim C7 as amended: when the active category changes while the style of the map is
  loaded, a change to \<open>All\<close> puts the colour of the building layer back to the colour
  the layer was created with and removes the filter of that layer; a change to any
  other category \<open>c\<close> colours the layer purple and filters it by the equality of the
  property \<open>category\<close> with \<open>c\<close>, so that it draws the features of category \<open>c\<close> only.
  The photo-marker layer, where the map has it, is set back to the filter it was created
  with (\<open>All\<close>) or filtered by the same equality joined with its own test for an image
  (\<open>c\<close>); where the map has no such layer there is none afterwards. A press of the
  category that is active already changes nothing, and a change while the style has not
  loaded changes the active category and nothing on the map.
\<close>

theorem category_change_sets_filters:
  "(style_ready st \<and> activeCategory st \<noteq> c \<longrightarrow>
      (filter_of BUILDING_LAYER_ID st \<noteq> None \<longrightarrow>
               (c = ''All'' \<longrightarrow>
                  paint_of BUILDING_LAYER_ID ''fill-extrusion-color'' (select_category c st)
                    = Some (S COLOR_GOLD)
                  \<and> map_of (layer_paint building_layer) ''fill-extrusion-color'' = Some (S COLOR_GOLD)
                  \<and> filter_of BUILDING_LAYER_ID (select_category c st) = Some None)
               \<and> (c \<noteq> ''All'' \<longrightarrow>
                    paint_of BUILDING_LAYER_ID ''fill-extrusion-color'' (select_category c st)
                      = Some (S COLOR_PURPLE)
                    \<and> filter_of BUILDING_LAYER_ID (select_category c st)
                        = Some (Some (category_filter c))
                    \<and> draws BUILDING_LAYER_ID (select_category c st) ps
                        = (prop_category ps = Some c)))
            \<and> (filter_of PHOTO_MARKER_LAYER_ID st \<noteq> None \<longrightarrow>
                 (c = ''All'' \<longrightarrow>
                    filter_of PHOTO_MARKER_LAYER_ID (select_category c st)
                      = Some (layer_filter photo_marker_layer))
                 \<and> (c \<noteq> ''All'' \<longrightarrow>
                      filter_of PHOTO_MARKER_LAYER_ID (select_category c st)
                        = Some (Some (L [S ''all'', L [S ''has'', S ''imageURL''], category_filter c]))
                      \<and> draws PHOTO_MARKER_LAYER_ID (select_category c st) ps
                          = (prop_imageURL ps \<noteq> None \<and> prop_category ps = Some c)))
            \<and> (filter_of PHOTO_MARKER_LAYER_ID st = None \<longrightarrow>
                 filter_of PHOTO_MARKER_LAYER_ID (select_category c st) = None)
            \<and> activeCategory (select_category c st) = c)
   \<and> (activeCategory st = c \<longrightarrow> select_category c st = st)
   \<and> (\<not> style_ready st \<longrightarrow> select_category c st = st\<lparr>activeCategory := c\<rparr>)"
  using category_change_on_loaded_style [of st c ps] select_category_same [of st c]
    select_category_waits_for_style [of st c]
  by blast

theorem category_change_sets_filters_witness:
  "filter_of BUILDING_LAYER_ID (select_category ''Cabin'' (component (after loaded_run)))
     = Some (Some (L [S ''=='', L [S ''get'', S ''category''], S ''Cabin'']))
   \<and> paint_of BUILDING_LAYER_ID ''fill-extrusion-color''
       (select_category ''Cabin'' (component (after loaded_run))) = Some (S ''#9400d3'')
   \<and> draws BUILDING_LAYER_ID (select_category ''Cabin'' (component (after loaded_run)))
       (properties cabin_marker)
   \<and> filter_of BUILDING_LAYER_ID
       (select_category ''All'' (select_category ''Cabin'' (component (after loaded_run))))
     = Some None
   \<and> paint_of BUILDING_LAYER_ID ''fill-extrusion-color''
       (select_category ''All'' (select_category ''Cabin'' (component (after loaded_run))))
     = Some (S ''#d4af37'')"
proof -
  let ?st = "component (after loaded_run)"
  let ?cabin = "select_category ''Cabin'' ?st"
  have ready: "style_ready ?st" and change: "activeCategory ?st \<noteq> ''Cabin''"
    and layer: "filter_of BUILDING_LAYER_ID ?st \<noteq> None"
    using loaded_run_state by (simp_all add: filter_of_def)
  note first = category_change_sets_filters
    [where st = ?st and c = "''Cabin''" and ps = "properties cabin_marker"]
  have ready': "style_ready ?cabin" and change': "activeCategory ?cabin \<noteq> ''All''"
    and layer': "filter_of BUILDING_LAYER_ID ?cabin \<noteq> None"
    using first ready change layer by (simp_all add: style_ready_select_category)
  show ?thesis
    using first category_change_sets_filters [where st = ?cabin and c = "''All''"]
      ready change layer ready' change' layer'
    by (simp add: category_filter_def cabin_marker_def COLOR_GOLD_def COLOR_PURPLE_def)
qed

text \<open>
  The claim as stated fails on a run: the category \<open>Building\<close> is chosen before the style
  has loaded, then the style loads. The active category is \<open>Building\<close>, the building
  layer is unfiltered and has the colour it was created with, and choosing \<open>Building\<close>
  again changes nothing. The photo-marker layer is on no map of a run (the icon request
  stands after the statement that ends the load handler), so a change of category with
  the style loaded puts no filter on it either.
\<close>

theorem category_before_style_counterexample:
  "activeCategory (component (after early_choice)) = ''Building''
   \<and> style_ready (component (after early_choice))
   \<and> filter_of BUILDING_LAYER_ID (component (after early_choice)) = Some None
   \<and> paint_of BUILDING_LAYER_ID ''fill-extrusion-color'' (component (after early_choice))
       = Some (S COLOR_GOLD)
   \<and> filter_of PHOTO_MARKER_LAYER_ID (component (after early_choice)) = None
   \<and> component (after (early_choice @ [PressCategory ''Building'']))
       = component (after early_choice)
   \<and> filter_of PHOTO_MARKER_LAYER_ID
       (component (after (loaded_run @ [PressCategory ''Cabin'']))) = None"
proof -
  let ?fresh = "new_map \<lparr>cap_buildings = [], cap_routePoints = [], cap_route = None\<rparr>"
  let ?w1 = "after [BuildingsArrived []]"
  let ?w2 = "step (PressCategory ''Building'') ?w1"
  have fresh: "\<not> style_loaded ?fresh" "getLayer PHOTO_MARKER_LAYER_ID ?fresh = None"
    by (simp_all add: new_map_def getLayer_def)
  have w1: "map_current (component ?w1) = Some ?fresh"
    by (simp add: run_arrival start_def initial_state_def)
  then have "\<not> style_ready (component ?w1)"
    by (simp add: style_ready_def fresh)
  then have w2: "component ?w2 = (component ?w1)\<lparr>activeCategory := ''Building''\<rparr>"
    by (simp add: step_category CATEGORY_OPTIONS_def select_category_waits_for_style)
  with w1 have m2: "map_current (component ?w2) = Some ?fresh"
    by simp
  have "after early_choice = step MapLoad ?w2"
    by (simp add: early_choice_def after_def)
  then have c: "component (after early_choice) = fst (load_event (component ?w2))"
    using step_load [OF m2 fresh(1)] by simp
  have early:
    "activeCategory (component (after early_choice)) = ''Building''
     \<and> style_ready (component (after early_choice))
     \<and> filter_of BUILDING_LAYER_ID (component (after early_choice)) = Some None
     \<and> paint_of BUILDING_LAYER_ID ''fill-extrusion-color'' (component (after early_choice))
         = Some (S COLOR_GOLD)
     \<and> filter_of PHOTO_MARKER_LAYER_ID (component (after early_choice)) = None"
    using load_event_result [OF m2] fresh(2) unfolding c
    by (auto simp: w2 style_ready_def filter_of_def paint_of_def layer_of_def building_layer_def)
  have again: "component (after (early_choice @ [PressCategory ''Building'']))
                 = component (after early_choice)"
    using early by (simp add: after_snoc step_category CATEGORY_OPTIONS_def select_category_same)
  have "filter_of PHOTO_MARKER_LAYER_ID (component (after loaded_run)) = None"
    using loaded_run_state by (simp add: filter_of_def)
  moreover have "style_ready (component (after loaded_run))"
    and "activeCategory (component (after loaded_run)) \<noteq> ''Cabin''"
    using loaded_run_state by simp_all
  ultimately have "filter_of PHOTO_MARKER_LAYER_ID
                     (select_category ''Cabin'' (component (after loaded_run))) = None"
    by (simp add: select_category_without_photo_layer)
  then have "filter_of PHOTO_MARKER_LAYER_ID
               (component (after (loaded_run @ [PressCategory ''Cabin'']))) = None"
    by (simp add: after_snoc step_category CATEGORY_OPTIONS_def)
  with early again show ?thesis
    by blast
qed

section \<open>Failures and sentinels of the geocoding client\<close>

text \<open>
  Claim C8: whatever the failure of the request, both geocoding functions return a value
  and throw nothing. The forward search returns the empty list; the reverse lookup
  returns the record with pincode \<open>Error\<close>, address \<open>Service Error\<close> and the two
  coordinates formatted to six decimals.
\<close>

theorem geocoding_failures_are_swallowed:
  "resume (fetchCoordinates query limit) (Inl err) = Return []
   \<and> resume (fetchPincodeAndAddress lat' lng') (Inl err) =
       Return \<lparr>pincode = ''Error'', latitude = toFixed 6 lat', longitude = toFixed 6 lng',
               fullAddress = ''Service Error''\<rparr>"
  by (simp add: fetchCoordinates_def fetchPincodeAndAddress_def axios_get_def)

theorem geocoding_failures_are_swallowed_witness:
  "issued (fetchCoordinates ''Vizag'' 5) \<noteq> None
   \<and> resume (fetchCoordinates ''Vizag'' 5) (Inl (NetworkError ''timeout'')) = Return []
   \<and> resume (fetchPincodeAndAddress (lat harbour) (lng harbour)) (Inl (NetworkError ''timeout'')) =
       Return \<lparr>pincode = ''Error'', latitude = ''17.720000'', longitude = ''83.230000'',
               fullAddress = ''Service Error''\<rparr>"
  using geocoding_failures_are_swallowed
    [of "''Vizag''" 5 "NetworkError ''timeout''" "lat harbour" "lng harbour"]
  by (simp add: fetchCoordinates_def axios_get_def harbour_def toFixed_eval)

text \<open>
  Claim C9: the reverse lookup for latitude 17.72 and longitude 83.23, answered by a
  response without an address object, returns pincode \<open>N/A\<close>, latitude \<open>17.720000\<close>,
  longitude \<open>83.230000\<close> and address \<open>No Address Data Found\<close>. This holds for every pair
  of numbers within half a unit of the sixth decimal of 17.72 and 83.23, so for the two
  decimal values and for the doubles that the literals denote.
\<close>

theorem reverse_lookup_without_address:
  assumes "\<bar>lat' - 1772 / 100\<bar> < 1 / 2000000" and "\<bar>lng' - 8323 / 100\<bar> < 1 / 2000000"
    and "address_of response = None"
  shows "resume (fetchPincodeAndAddress lat' lng') (Inr response) =
           Return \<lparr>pincode = ''N/A'', latitude = ''17.720000'', longitude = ''83.230000'',
                   fullAddress = ''No Address Data Found''\<rparr>"
  using assms(3)
  by (simp add: fetchPincodeAndAddress_def axios_get_def toFixed_near_17_72 [OF assms(1)]
      toFixed_near_83_23 [OF assms(2)])

theorem reverse_lookup_without_address_witness:
  "resume (fetchPincodeAndAddress (lat harbour) (lng harbour))
      (Inr \<lparr>data = Some (ReverseBody \<lparr>body_address = None, body_display_name = Some ''Bay of Bengal''\<rparr>)\<rparr>)
     = Return \<lparr>pincode = ''N/A'', latitude = ''17.720000'', longitude = ''83.230000'',
               fullAddress = ''No Address Data Found''\<rparr>
   \<and> resume (fetchPincodeAndAddress (1772 / 100) (8323 / 100)) (Inr \<lparr>data = None\<rparr>)
     = Return \<lparr>pincode = ''N/A'', latitude = ''17.720000'', longitude = ''83.230000'',
               fullAddress = ''No Address Data Found''\<rparr>"
proof -
  have a: "\<bar>lat harbour - 1772 / 100\<bar> < 1 / 2000000"
    and b: "\<bar>lng harbour - 8323 / 100\<bar> < 1 / 2000000"
    by (simp_all add: harbour_def)
  have c: "address_of \<lparr>data = Some (ReverseBody \<lparr>body_address = None,
                                                  body_display_name = Some ''Bay of Bengal''\<rparr>)\<rparr> = None"
    by (simp add: address_of_def)
  have a': "\<bar>(1772 / 100 :: rat) - 1772 / 100\<bar> < 1 / 2000000"
    and b': "\<bar>(8323 / 100 :: rat) - 8323 / 100\<bar> < 1 / 2000000"
    by simp_all
  have c': "address_of \<lparr>data = None\<rparr> = None"
    by (simp add: address_of_def)
  show ?thesis
    using reverse_lookup_without_address [OF a b c] reverse_lookup_without_address [OF a' b' c']
    by simp
qed

section \<open>Resetting the map\<close>

text \<open>
  Claim C10: on an existing map, the reset empties the route points, the collected
  coordinates, the logged clicks, the route, the selected feature, the 360-view URL, the
  search suggestions and the reverse-geocode result, closes the coordinate form and sets
  the active category to \<open>All\<close>; for the cells of the component these are the values of
  the first render. The text of the search query and the search error stay as they are.
\<close>

theorem reset_clears_interaction_state:
  assumes "map_current st \<noteq> None"
  shows "routePoints (resetMapView st) = [] \<and> collectedCoordinates (resetMapView st) = []
    \<and> loggedClicks (resetMapView st) = [] \<and> route (resetMapView st) = None
    \<and> selectedFeature (resetMapView st) = None \<and> view360Url (resetMapView st) = None
    \<and> isCoordinateFormOpen (resetMapView st) = False
    \<and> searchSuggestions (resetMapView st) = []
    \<and> reverseGeocodeInfo (resetMapView st) = None
    \<and> activeCategory (resetMapView st) = ''All''
    \<and> routePoints initial_state = [] \<and> collectedCoordinates initial_state = []
    \<and> loggedClicks initial_state = []
    \<and> selectedFeature initial_state = None \<and> view360Url initial_state = None
    \<and> isCoordinateFormOpen initial_state = False
    \<and> searchSuggestions initial_state = []
    \<and> reverseGeocodeInfo initial_state = None
    \<and> activeCategory initial_state = ''All''
    \<and> searchQuery (resetMapView st) = searchQuery st
    \<and> searchError (resetMapView st) = searchError st"
  using assms
  by (auto simp add: resetMapView_def flyTo_default_center Let_def setRoute_def
      initial_state_def)

theorem reset_clears_interaction_state_witness:
  "collectedCoordinates (resetMapView busy_state) = []
   \<and> route (resetMapView busy_state) = None
   \<and> reverseGeocodeInfo (resetMapView busy_state) = None
   \<and> activeCategory (resetMapView busy_state) = ''All''
   \<and> searchQuery (resetMapView busy_state) = ''Vi''
   \<and> searchError (resetMapView busy_state) = Some ''Location/Pincode not found or ambiguous.''"
  using reset_clears_interaction_state [of busy_state]
  by (simp add: busy_state_def)

end
